theory Spec2Isabelle
  imports Main "HOL-Library.Word"
begin

text \<open>
  A model of \<open>static/js/script.js\<close>, the browser script of NewsHub: the click
  handlers for favourites, reactions and comments, the callbacks that run when their
  requests settle, and the helpers \<open>updateReactionButtons\<close>, \<open>addCommentToDOM\<close>,
  \<open>getCookie\<close> and \<open>escapeHtml\<close>. The page, the alerts shown and the requests
  issued are one explicit state, the \<open>world\<close>; an exception is a value, and what a
  function changed before it threw stays changed. The timer that fades the \<open>.alert\<close>
  messages after loading is not part of the model.
\<close>

section \<open>JavaScript strings and values\<close>

text \<open>
  A JavaScript string is a sequence of 16-bit code units. The script's Cyrillic
  literals are written out as code units; ASCII literals go through \<open>asc\<close>.
\<close>

type_synonym code_unit = "16 word"
type_synonym jsstring = "code_unit list"

definition asc :: "string \<Rightarrow> jsstring" where
  "asc s = map (\<lambda>c. of_nat (of_char c)) s"

definition dq :: jsstring where
  "dq = [0x22]"

definition msg_error_prefix :: jsstring where
  "msg_error_prefix = [0x41E, 0x448, 0x438, 0x431, 0x43A, 0x430, 0x3A, 0x20]"

definition msg_unknown_error :: jsstring where
  "msg_unknown_error = [0x41D, 0x435, 0x438, 0x437, 0x432, 0x435, 0x441, 0x442, 0x43D,
     0x430, 0x44F, 0x20, 0x43E, 0x448, 0x438, 0x431, 0x43A, 0x430]"

definition msg_favorite_failed :: jsstring where
  "msg_favorite_failed = [0x41F, 0x440, 0x43E, 0x438, 0x437, 0x43E, 0x448, 0x43B, 0x430,
     0x20, 0x43E, 0x448, 0x438, 0x431, 0x43A, 0x430, 0x20, 0x43F, 0x440, 0x438, 0x20, 0x441,
     0x43E, 0x445, 0x440, 0x430, 0x43D, 0x435, 0x43D, 0x438, 0x438, 0x20, 0x432, 0x20, 0x438,
     0x437, 0x431, 0x440, 0x430, 0x43D, 0x43D, 0x43E, 0x435]"

definition msg_reaction_failed :: jsstring where
  "msg_reaction_failed = [0x41F, 0x440, 0x43E, 0x438, 0x437, 0x43E, 0x448, 0x43B, 0x430,
     0x20, 0x43E, 0x448, 0x438, 0x431, 0x43A, 0x430, 0x20, 0x43F, 0x440, 0x438, 0x20, 0x434,
     0x43E, 0x431, 0x430, 0x432, 0x43B, 0x435, 0x43D, 0x438, 0x438, 0x20, 0x440, 0x435, 0x430,
     0x43A, 0x446, 0x438, 0x438]"

definition msg_enter_comment :: jsstring where
  "msg_enter_comment = [0x412, 0x432, 0x435, 0x434, 0x438, 0x442, 0x435, 0x20, 0x442,
     0x435, 0x43A, 0x441, 0x442, 0x20, 0x43A, 0x43E, 0x43C, 0x43C, 0x435, 0x43D, 0x442, 0x430,
     0x440, 0x438, 0x44F]"

definition msg_add_comment_failed :: jsstring where
  "msg_add_comment_failed = [0x41F, 0x440, 0x43E, 0x438, 0x437, 0x43E, 0x448, 0x43B, 0x430,
     0x20, 0x43E, 0x448, 0x438, 0x431, 0x43A, 0x430, 0x20, 0x43F, 0x440, 0x438, 0x20, 0x434,
     0x43E, 0x431, 0x430, 0x432, 0x43B, 0x435, 0x43D, 0x438, 0x438, 0x20, 0x43A, 0x43E, 0x43C,
     0x43C, 0x435, 0x43D, 0x442, 0x430, 0x440, 0x438, 0x44F]"

definition msg_edit_failed :: jsstring where
  "msg_edit_failed = [0x41F, 0x440, 0x43E, 0x438, 0x437, 0x43E, 0x448, 0x43B, 0x430, 0x20,
     0x43E, 0x448, 0x438, 0x431, 0x43A, 0x430, 0x20, 0x43F, 0x440, 0x438, 0x20, 0x440, 0x435,
     0x434, 0x430, 0x43A, 0x442, 0x438, 0x440, 0x43E, 0x432, 0x430, 0x43D, 0x438, 0x438, 0x20,
     0x43A, 0x43E, 0x43C, 0x43C, 0x435, 0x43D, 0x442, 0x430, 0x440, 0x438, 0x44F]"

definition msg_delete_failed :: jsstring where
  "msg_delete_failed = [0x41F, 0x440, 0x43E, 0x438, 0x437, 0x43E, 0x448, 0x43B, 0x430,
     0x20, 0x43E, 0x448, 0x438, 0x431, 0x43A, 0x430, 0x20, 0x43F, 0x440, 0x438, 0x20, 0x443,
     0x434, 0x430, 0x43B, 0x435, 0x43D, 0x438, 0x438, 0x20, 0x43A, 0x43E, 0x43C, 0x43C, 0x435,
     0x43D, 0x442, 0x430, 0x440, 0x438, 0x44F]"

definition txt_no_comments :: jsstring where
  "txt_no_comments = [0x41F, 0x43E, 0x43A, 0x430, 0x20, 0x43D, 0x435, 0x442, 0x20, 0x43A,
     0x43E, 0x43C, 0x43C, 0x435, 0x43D, 0x442, 0x430, 0x440, 0x438, 0x435, 0x432]"

definition title_remove_favorite :: jsstring where
  "title_remove_favorite = [0x423, 0x434, 0x430, 0x43B, 0x438, 0x442, 0x44C, 0x20, 0x438,
     0x437, 0x20, 0x438, 0x437, 0x431, 0x440, 0x430, 0x43D, 0x43D, 0x43E, 0x433, 0x43E]"

definition title_add_favorite :: jsstring where
  "title_add_favorite = [0x414, 0x43E, 0x431, 0x430, 0x432, 0x438, 0x442, 0x44C, 0x20,
     0x432, 0x20, 0x438, 0x437, 0x431, 0x440, 0x430, 0x43D, 0x43D, 0x43E, 0x435]"

definition icon_star_filled :: jsstring where
  "icon_star_filled = [0x2B50]"

definition icon_star_empty :: jsstring where
  "icon_star_empty = [0x2606]"

definition lbl_edit :: jsstring where
  "lbl_edit = [0x420, 0x435, 0x434, 0x430, 0x43A, 0x442, 0x438, 0x440, 0x43E, 0x432, 0x430,
     0x442, 0x44C]"

definition lbl_delete :: jsstring where
  "lbl_delete = [0x423, 0x434, 0x430, 0x43B, 0x438, 0x442, 0x44C]"

text \<open>Exceptions the script can meet.\<close>

datatype error = TypeError | SyntaxError | URIError | HierarchyRequestError | NetworkError

text \<open>
  The values that \<open>JSON.parse\<close> and \<open>dataset\<close> reads produce. \<open>Num n\<close> is the
  number whose value is the integer \<open>n\<close>, as the counts and ids of the API's responses
  are; an object is its list of own properties, read with \<open>map_of\<close>. Arrays, fractional
  numbers and members inherited from a prototype are not part of this model.
\<close>

datatype jsval =
    Undefined
  | Null
  | Bool bool
  | Num int
  | Str jsstring
  | Obj "(jsstring \<times> jsval) list"

definition digit :: "nat \<Rightarrow> code_unit" where
  "digit d = 0x30 + of_nat d"

fun show_nat :: "nat \<Rightarrow> jsstring" where
  "show_nat n = (if n < 10 then [digit n] else show_nat (n div 10) @ [digit (n mod 10)])"

declare show_nat.simps [simp del]

definition show_int :: "int \<Rightarrow> jsstring" where
  "show_int i = (if i < 0 then 0x2D # show_nat (nat (- i)) else show_nat (nat i))"

text \<open>\<open>ToBoolean\<close>: what \<open>if (v)\<close>, \<open>v && ...\<close> and \<open>v || ...\<close> test.\<close>

fun truthy :: "jsval \<Rightarrow> bool" where
  "truthy Undefined = False"
| "truthy Null = False"
| "truthy (Bool b) = b"
| "truthy (Num n) = (n \<noteq> 0)"
| "truthy (Str s) = (s \<noteq> [])"
| "truthy (Obj ps) = True"

text \<open>
  Strict equality \<open>===\<close>: primitives compare by value, two objects only by identity,
  which a parsed response and a \<open>dataset\<close> string never share.
\<close>

fun strict_eq :: "jsval \<Rightarrow> jsval \<Rightarrow> bool" where
  "strict_eq (Obj a) v = False"
| "strict_eq v (Obj b) = False"
| "strict_eq u v = (u = v)"

text \<open>
  A property read \<open>v[k]\<close>. Reading from \<open>undefined\<close> or \<open>null\<close> throws. A string
  has \<open>length\<close> and its indices, a number or boolean no own property.
\<close>

fun get_prop :: "jsval \<Rightarrow> jsstring \<Rightarrow> error + jsval" where
  "get_prop Undefined k = Inl TypeError"
| "get_prop Null k = Inl TypeError"
| "get_prop (Bool b) k = Inr Undefined"
| "get_prop (Num n) k = Inr Undefined"
| "get_prop (Str s) k =
     (if k = asc ''length'' then Inr (Num (int (length s)))
      else (case List.find (\<lambda>i. show_nat i = k) [0..<length s] of
              Some i \<Rightarrow> Inr (Str [s ! i])
            | None \<Rightarrow> Inr Undefined))"
| "get_prop (Obj ps) k = (case map_of ps k of Some v \<Rightarrow> Inr v | None \<Rightarrow> Inr Undefined)"

section \<open>String helpers of the script\<close>

text \<open>\<open>String.prototype.trim\<close> strips white space and line terminators at both ends.\<close>

definition is_ws :: "code_unit \<Rightarrow> bool" where
  "is_ws c \<longleftrightarrow> c \<in> {0x9, 0xA, 0xB, 0xC, 0xD, 0x20, 0xA0, 0x1680, 0x2028, 0x2029, 0x202F,
     0x205F, 0x3000, 0xFEFF} \<or> (0x2000 \<le> c \<and> c \<le> 0x200A)"

definition trim :: "jsstring \<Rightarrow> jsstring" where
  "trim s = rev (dropWhile is_ws (rev (dropWhile is_ws s)))"

text \<open>\<open>s.split(sep)\<close> for a one-unit separator.\<close>

fun split_on :: "code_unit \<Rightarrow> jsstring \<Rightarrow> jsstring list" where
  "split_on sep [] = [[]]"
| "split_on sep (c # cs) =
     (if c = sep then [] # split_on sep cs
      else (case split_on sep cs of
              [] \<Rightarrow> [[c]]
            | p # ps \<Rightarrow> (c # p) # ps))"

text \<open>
  \<open>escapeHtml\<close>: \<open>text.replace(/[&<>"']/g, m => map[m])\<close>. A value that is not a
  string has no \<open>replace\<close> method, and the call throws.
\<close>

definition escape_unit :: "code_unit \<Rightarrow> jsstring" where
  "escape_unit c =
     (if c = 0x26 then asc ''&amp;''
      else if c = 0x3C then asc ''&lt;''
      else if c = 0x3E then asc ''&gt;''
      else if c = 0x22 then asc ''&quot;''
      else if c = 0x27 then asc ''&#039;''
      else [c])"

definition replace_special :: "jsstring \<Rightarrow> jsstring" where
  "replace_special s = concat (map escape_unit s)"

fun escapeHtml :: "jsval \<Rightarrow> error + jsstring" where
  "escapeHtml (Str s) = Inr (replace_special s)"
| "escapeHtml v = Inl TypeError"


section \<open>The document\<close>

text \<open>
  Element identity is a number. The shape of the page is a forest of element ids: the
  children of the \<open>Document\<close> node, and the trees that are detached from it but still
  referenced by the script. What an element carries is kept apart from the shape, in
  \<open>nodes\<close>, so that a reference held across a \<open>fetch\<close> stays meaningful when
  the shape changes. Text is kept as one \<open>textContent\<close> field per element (the
  elements whose text the script reads or writes hold text only), and markup assigned to
  \<open>innerHTML\<close> is kept as the assigned string.
\<close>

datatype tree = T (root: nat) (kids: "tree list")

record node =
  classList :: "jsstring list"
  dataset :: "(jsstring \<times> jsstring) list"
  textContent :: jsstring
  title :: jsstring
  display :: jsstring
  val :: "jsstring option"
  innerHTML :: jsstring

text \<open>A \<open>fetch\<close> call: the URL and the \<open>init\<close> object. \<open>body\<close> is the value handed
  to \<open>JSON.stringify\<close> (which leaves out properties that are \<open>undefined\<close>).\<close>

record request =
  url :: jsstring
  http_method :: jsstring
  headers :: "(jsstring \<times> jsval) list"
  body :: "jsval option"

record world =
  doc :: "tree list"
  detached :: "tree list"
  nodes :: "nat \<Rightarrow> node"
  next_id :: nat
  cookie :: jsstring
  alerts :: "jsstring list"
  console_errors :: "error list"
  requests :: "request list"

text \<open>
  What the browser supplies and the script only calls: \<open>decodeURIComponent\<close>,
  \<open>JSON.parse\<close>, the string form of a number outside the safe range, whether a
  string converts to a number above zero (for \<open>count > 0\<close>), and
  \<open>document.querySelector\<close> on a selector text that the model does not read itself.
\<close>

record host =
  decodeURIComponent :: "jsstring \<Rightarrow> error + jsstring"
  JSON_parse :: "jsstring \<Rightarrow> error + jsval"
  number_to_string :: "int \<Rightarrow> jsstring"
  string_above_zero :: "jsstring \<Rightarrow> bool"
  querySelector_text :: "jsstring \<Rightarrow> world \<Rightarrow> error + nat option"

text \<open>
  \<open>ToString\<close>, as string concatenation, template literals and property keys apply
  it. An integer strictly between \<open>-2^53\<close> and \<open>2^53\<close> prints as its
  decimal digits. Beyond that range the digits are those of the nearest representable
  number, in exponent form from \<open>10^21\<close> on (\<open>1e+21\<close>); that string is the host's.
\<close>

fun to_string :: "host \<Rightarrow> jsval \<Rightarrow> jsstring" where
  "to_string h Undefined = asc ''undefined''"
| "to_string h Null = asc ''null''"
| "to_string h (Bool b) = (if b then asc ''true'' else asc ''false'')"
| "to_string h (Num n) =
     (if - 9007199254740992 < n \<and> n < 9007199254740992 then show_int n
      else number_to_string h n)"
| "to_string h (Str s) = s"
| "to_string h (Obj ps) = asc ''[object Object]''"

fun first_some :: "'a option list \<Rightarrow> 'a option" where
  "first_some [] = None"
| "first_some (None # xs) = first_some xs"
| "first_some (Some x # xs) = Some x"

fun descendants :: "tree \<Rightarrow> nat list" where
  "descendants (T i ks) = concat (map (\<lambda>k. root k # descendants k) ks)"

definition all_ids :: "tree \<Rightarrow> nat list" where
  "all_ids t = root t # descendants t"

fun subtree :: "nat \<Rightarrow> tree \<Rightarrow> tree option" where
  "subtree c (T i ks) = (if i = c then Some (T i ks) else first_some (map (subtree c) ks))"

text \<open>The chain from an element up to the root of its tree, the element first.\<close>

fun path_to :: "nat \<Rightarrow> tree \<Rightarrow> nat list option" where
  "path_to c (T i ks) =
     (if i = c then Some [i]
      else (case first_some (map (path_to c) ks) of
              Some p \<Rightarrow> Some (p @ [i])
            | None \<Rightarrow> None))"

fun prune :: "nat \<Rightarrow> tree \<Rightarrow> tree" where
  "prune c (T i ks) = T i (map (prune c) (filter (\<lambda>k. root k \<noteq> c) ks))"

fun graft :: "nat \<Rightarrow> tree \<Rightarrow> tree \<Rightarrow> tree" where
  "graft p s (T i ks) = (if i = p then T i (ks @ [s]) else T i (map (graft p s) ks))"

fun siblings_of :: "nat \<Rightarrow> tree \<Rightarrow> nat list option" where
  "siblings_of c (T i ks) =
     (if c \<in> set (map root ks) then Some (map root ks)
      else first_some (map (siblings_of c) ks))"

fun prev_of :: "nat \<Rightarrow> nat list \<Rightarrow> nat option" where
  "prev_of c (x # y # ys) = (if y = c then Some x else prev_of c (y # ys))"
| "prev_of c xs = None"

definition forest :: "world \<Rightarrow> tree list" where
  "forest w = doc w @ detached w"

definition without :: "nat \<Rightarrow> tree list \<Rightarrow> tree list" where
  "without c ts = map (prune c) (filter (\<lambda>t. root t \<noteq> c) ts)"

definition has_class :: "world \<Rightarrow> jsstring \<Rightarrow> nat \<Rightarrow> bool" where
  "has_class w cls n \<longleftrightarrow> cls \<in> set (classList (nodes w n))"

definition dataset_get :: "world \<Rightarrow> nat \<Rightarrow> jsstring \<Rightarrow> jsval" where
  "dataset_get w n k = (case map_of (dataset (nodes w n)) k of Some s \<Rightarrow> Str s | None \<Rightarrow> Undefined)"

text \<open>\<open>el.querySelectorAll('.cls')\<close>: the descendants of \<open>el\<close> with the class, in
  document order; \<open>el.querySelector\<close> is the first of them or \<open>null\<close>.\<close>

definition querySelectorAll :: "world \<Rightarrow> nat \<Rightarrow> jsstring \<Rightarrow> nat list" where
  "querySelectorAll w el cls =
     (case first_some (map (subtree el) (forest w)) of
        None \<Rightarrow> []
      | Some t \<Rightarrow> filter (has_class w cls) (descendants t))"

definition querySelector :: "world \<Rightarrow> nat \<Rightarrow> jsstring \<Rightarrow> nat option" where
  "querySelector w el cls = (case querySelectorAll w el cls of [] \<Rightarrow> None | x # xs \<Rightarrow> Some x)"

text \<open>\<open>el.closest('.cls')\<close>: the element itself or its nearest ancestor with the class.\<close>

definition closest :: "world \<Rightarrow> nat \<Rightarrow> jsstring \<Rightarrow> nat option" where
  "closest w el cls =
     List.find (has_class w cls)
       (case first_some (map (path_to el) (forest w)) of None \<Rightarrow> [el] | Some p \<Rightarrow> p)"

definition previousElementSibling :: "world \<Rightarrow> nat \<Rightarrow> nat option" where
  "previousElementSibling w el =
     (if el \<in> set (map root (doc w)) then prev_of el (map root (doc w))
      else (case first_some (map (siblings_of el) (forest w)) of
              None \<Rightarrow> None
            | Some sibs \<Rightarrow> prev_of el sibs))"

text \<open>\<open>el.remove()\<close>: the element leaves its parent and heads a detached tree.\<close>

definition remove_node :: "nat \<Rightarrow> world \<Rightarrow> world" where
  "remove_node el w =
     (case first_some (map (subtree el) (forest w)) of
        None \<Rightarrow> w
      | Some t \<Rightarrow> w\<lparr>doc := without el (doc w), detached := without el (detached w) @ [t]\<rparr>)"

text \<open>\<open>document.createElement\<close>: a fresh element outside the document.\<close>

definition blank :: node where
  "blank = \<lparr>classList = [], dataset = [], textContent = [], title = [], display = [],
     val = None, innerHTML = []\<rparr>"

definition createElement :: "world \<Rightarrow> nat \<times> world" where
  "createElement w =
     (next_id w,
      w\<lparr>detached := detached w @ [T (next_id w) []],
        nodes := (nodes w)(next_id w := blank),
        next_id := Suc (next_id w)\<rparr>)"

text \<open>\<open>parent.appendChild(child)\<close>: the child moves to the end of the parent's
  children; a parent inside the child is refused.\<close>

definition appendChild :: "nat \<Rightarrow> nat \<Rightarrow> world \<Rightarrow> error option \<times> world" where
  "appendChild parent child w =
     (case first_some (map (subtree child) (forest w)) of
        None \<Rightarrow> (None, w)
      | Some t \<Rightarrow>
          if parent \<in> set (all_ids t) then (Some HierarchyRequestError, w)
          else (None, w\<lparr>doc := map (graft parent t) (without child (doc w)),
                        detached := map (graft parent t) (without child (detached w))\<rparr>))"

text \<open>An element is in the document when it occurs in one of the document's trees.\<close>

definition in_document :: "world \<Rightarrow> nat \<Rightarrow> bool" where
  "in_document w n \<longleftrightarrow> n \<in> set (concat (map all_ids (doc w)))"

definition update_node :: "nat \<Rightarrow> (node \<Rightarrow> node) \<Rightarrow> world \<Rightarrow> world" where
  "update_node el f w = w\<lparr>nodes := (nodes w)(el := f (nodes w el))\<rparr>"

text \<open>\<open>classList.remove\<close> and \<open>classList.add\<close> of one token.\<close>

definition classList_remove :: "jsstring \<Rightarrow> node \<Rightarrow> node" where
  "classList_remove cls n = n\<lparr>classList := filter (\<lambda>c. c \<noteq> cls) (classList n)\<rparr>"

definition classList_add :: "jsstring \<Rightarrow> node \<Rightarrow> node" where
  "classList_add cls n =
     (if cls \<in> set (classList n) then n else n\<lparr>classList := classList n @ [cls]\<rparr>)"

text \<open>Assigning \<open>textContent\<close>: \<open>null\<close> and \<open>undefined\<close> give the empty text.\<close>

fun text_of :: "host \<Rightarrow> jsval \<Rightarrow> jsstring" where
  "text_of h Undefined = []"
| "text_of h Null = []"
| "text_of h v = to_string h v"

definition alert :: "jsstring \<Rightarrow> world \<Rightarrow> world" where
  "alert msg w = w\<lparr>alerts := alerts w @ [msg]\<rparr>"

definition console_error :: "error \<Rightarrow> world \<Rightarrow> world" where
  "console_error e w = w\<lparr>console_errors := console_errors w @ [e]\<rparr>"

definition fetch :: "request \<Rightarrow> world \<Rightarrow> world" where
  "fetch rq w = w\<lparr>requests := requests w @ [rq]\<rparr>"

section \<open>getCookie\<close>

fun getCookie_loop :: "host \<Rightarrow> jsstring \<Rightarrow> jsstring list \<Rightarrow> error + jsval" where
  "getCookie_loop h name [] = Inr Null"
| "getCookie_loop h name (c # cs) =
     (let cookie = trim c in
      if take (length name + 1) cookie = name @ asc ''='' then
        (case decodeURIComponent h (drop (length name + 1) cookie) of
           Inl e \<Rightarrow> Inl e
         | Inr v \<Rightarrow> Inr (Str v))
      else getCookie_loop h name cs)"

definition getCookie :: "host \<Rightarrow> world \<Rightarrow> jsstring \<Rightarrow> error + jsval" where
  "getCookie h w name =
     (if cookie w \<noteq> [] then getCookie_loop h name (split_on 0x3B (cookie w)) else Inr Null)"

section \<open>Handlers\<close>

text \<open>
  A click handler runs to its end, throws, or leaves a \<open>fetch\<close> pending together
  with the variables its \<open>then\<close> callback has captured. When the promise chain
  settles, the callback runs on the world as it is then. \<open>preventDefault\<close> and
  \<open>stopPropagation\<close> act on the event alone and leave the world as it is.
\<close>

datatype pending =
    FavoritePending nat
  | ReactionPending nat
  | AddCommentPending jsval nat
  | EditCommentPending nat nat
  | DeleteCommentPending "nat option"

datatype outcome = Threw error | Returned | Pending pending

datatype response = Rejected error | Parsed jsval

text \<open>\<open>.catch(error => { console.error('Error:', error); alert(msg); })\<close>\<close>

definition catch_alert :: "jsstring \<Rightarrow> error \<Rightarrow> world \<Rightarrow> world" where
  "catch_alert msg e w = alert msg (console_error e w)"

text \<open>\<open>.then(response => response.json()).then(body).catch(...)\<close>: a rejected fetch or
  parse, and an exception thrown by \<open>body\<close>, all reach the \<open>catch\<close> callback; what
  \<open>body\<close> changed before it threw stays changed.\<close>

definition on_settled ::
    "jsstring \<Rightarrow> (jsval \<Rightarrow> world \<Rightarrow> error option \<times> world) \<Rightarrow> response \<Rightarrow> world \<Rightarrow> world" where
  "on_settled msg then_body r w =
     (case r of
        Rejected e \<Rightarrow> catch_alert msg e w
      | Parsed data \<Rightarrow>
          (case then_body data w of
             (None, w') \<Rightarrow> w'
           | (Some e, w') \<Rightarrow> catch_alert msg e w'))"

text \<open>\<open>alert('...: ' + (data.error || '...'))\<close>, the \<open>else\<close> branch of every callback.\<close>

definition error_alert :: "host \<Rightarrow> jsval \<Rightarrow> world \<Rightarrow> error option \<times> world" where
  "error_alert h data w =
     (case get_prop data (asc ''error'') of
        Inl e \<Rightarrow> (Some e, w)
      | Inr err \<Rightarrow>
          (None, alert (msg_error_prefix @ (if truthy err then to_string h err else msg_unknown_error)) w))"

subsection \<open>initFavoriteButtons\<close>

definition favorite_click :: "host \<Rightarrow> nat \<Rightarrow> world \<Rightarrow> outcome \<times> world" where
  "favorite_click h this w =
     (case JSON_parse h (to_string h (dataset_get w this (asc ''source''))) of
        Inl e \<Rightarrow> (Threw e, w)
      | Inr source \<Rightarrow>
          (let articleData = Obj
                 [(asc ''url'', dataset_get w this (asc ''url'')),
                  (asc ''title'', dataset_get w this (asc ''title'')),
                  (asc ''description'', dataset_get w this (asc ''description'')),
                  (asc ''urlToImage'', dataset_get w this (asc ''image'')),
                  (asc ''source'', source),
                  (asc ''publishedAt'', dataset_get w this (asc ''published''))]
           in case getCookie h w (asc ''csrftoken'') of
                Inl e \<Rightarrow> (Threw e, w)
              | Inr token \<Rightarrow>
                  (Pending (FavoritePending this),
                   fetch \<lparr>url = asc ''/api/toggle-favorite/'',
                          http_method = asc ''POST'',
                          headers = [(asc ''Content-Type'', Str (asc ''application/json'')),
                                     (asc ''X-CSRFToken'', token)],
                          body = Some articleData\<rparr> w)))"

definition favorite_then :: "host \<Rightarrow> nat \<Rightarrow> jsval \<Rightarrow> world \<Rightarrow> error option \<times> world" where
  "favorite_then h this data w =
     (case get_prop data (asc ''success'') of
        Inl e \<Rightarrow> (Some e, w)
      | Inr success \<Rightarrow>
          if truthy success then
            (let icon = querySelector w this (asc ''favorite-icon'') in
             case get_prop data (asc ''is_favorite'') of
               Inl e \<Rightarrow> (Some e, w)
             | Inr is_favorite \<Rightarrow>
                 (case icon of
                    None \<Rightarrow> (Some TypeError, w)
                  | Some i \<Rightarrow>
                      if truthy is_favorite then
                        (None, update_node this (\<lambda>n. n\<lparr>title := title_remove_favorite\<rparr>)
                                 (update_node i (\<lambda>n. n\<lparr>textContent := icon_star_filled\<rparr>) w))
                      else
                        (None, update_node this (\<lambda>n. n\<lparr>title := title_add_favorite\<rparr>)
                                 (update_node i (\<lambda>n. n\<lparr>textContent := icon_star_empty\<rparr>) w))))
          else error_alert h data w)"

subsection \<open>updateReactionButtons and initReactionButtons\<close>

fun forEach ::
    "(nat \<Rightarrow> world \<Rightarrow> error option \<times> world) \<Rightarrow> nat list \<Rightarrow> world \<Rightarrow> error option \<times> world" where
  "forEach f [] w = (None, w)"
| "forEach f (x # xs) w =
     (case f x w of
        (Some e, w') \<Rightarrow> (Some e, w')
      | (None, w') \<Rightarrow> forEach f xs w')"

text \<open>\<open>count > 0\<close>, for the values \<open>count\<close> can hold.\<close>

fun above_zero :: "host \<Rightarrow> jsval \<Rightarrow> bool" where
  "above_zero h Undefined = False"
| "above_zero h Null = False"
| "above_zero h (Bool b) = b"
| "above_zero h (Num n) = (0 < n)"
| "above_zero h (Str s) = string_above_zero h s"
| "above_zero h (Obj ps) = False"

definition reaction_count :: "host \<Rightarrow> jsval \<Rightarrow> jsval \<Rightarrow> jsval" where
  "reaction_count h reactionsCount reactionType =
     (if truthy reactionsCount then
        (case get_prop reactionsCount (to_string h reactionType) of
           Inl e \<Rightarrow> Num 0
         | Inr c \<Rightarrow> if truthy c then c else Num 0)
      else Num 0)"

definition update_reaction_button ::
    "host \<Rightarrow> jsval \<Rightarrow> jsval \<Rightarrow> nat \<Rightarrow> world \<Rightarrow> error option \<times> world" where
  "update_reaction_button h reactionsCount userReaction btn w =
     (let reactionType = dataset_get w btn (asc ''reaction'');
          countElement = querySelector w btn (asc ''reaction-count'');
          w1 = update_node btn (classList_remove (asc ''active'')) w;
          w2 = (if strict_eq userReaction reactionType
                then update_node btn (classList_add (asc ''active'')) w1 else w1);
          count = reaction_count h reactionsCount reactionType
      in case countElement of
           None \<Rightarrow> (Some TypeError, w2)
         | Some ce \<Rightarrow>
             if above_zero h count then
               (None, update_node ce
                        (\<lambda>n. n\<lparr>textContent := text_of h count, display := asc ''inline''\<rparr>) w2)
             else
               (None, update_node ce (\<lambda>n. n\<lparr>textContent := [], display := asc ''none''\<rparr>) w2))"

definition updateReactionButtons ::
    "host \<Rightarrow> nat option \<Rightarrow> jsval \<Rightarrow> jsval \<Rightarrow> world \<Rightarrow> error option \<times> world" where
  "updateReactionButtons h articleCard reactionsCount userReaction w =
     (case articleCard of
        None \<Rightarrow> (Some TypeError, w)
      | Some el \<Rightarrow>
          forEach (update_reaction_button h reactionsCount userReaction)
            (querySelectorAll w el (asc ''reaction-btn'')) w)"

definition reaction_click :: "host \<Rightarrow> nat \<Rightarrow> world \<Rightarrow> outcome \<times> world" where
  "reaction_click h this w =
     (let reactionType = dataset_get w this (asc ''reaction'');
          articleUrl = dataset_get w this (asc ''url'')
      in case getCookie h w (asc ''csrftoken'') of
           Inl e \<Rightarrow> (Threw e, w)
         | Inr token \<Rightarrow>
             (Pending (ReactionPending this),
              fetch \<lparr>url = asc ''/api/add-reaction/'',
                     http_method = asc ''POST'',
                     headers = [(asc ''Content-Type'', Str (asc ''application/json'')),
                                (asc ''X-CSRFToken'', token)],
                     body = Some (Obj [(asc ''url'', articleUrl),
                                       (asc ''reaction_type'', reactionType)])\<rparr> w))"

definition reaction_then :: "host \<Rightarrow> nat \<Rightarrow> jsval \<Rightarrow> world \<Rightarrow> error option \<times> world" where
  "reaction_then h this data w =
     (case get_prop data (asc ''success'') of
        Inl e \<Rightarrow> (Some e, w)
      | Inr success \<Rightarrow>
          if truthy success then
            (let articleCard = closest w this (asc ''news-card'') in
             case get_prop data (asc ''reactions_count'') of
               Inl e \<Rightarrow> (Some e, w)
             | Inr reactions_count \<Rightarrow>
                 (case get_prop data (asc ''reaction_type'') of
                    Inl e \<Rightarrow> (Some e, w)
                  | Inr reaction_type \<Rightarrow>
                      updateReactionButtons h articleCard reactions_count reaction_type w))
          else error_alert h data w)"

subsection \<open>addCommentToDOM\<close>

text \<open>
  \<open>document.querySelector(`.comments-list[data-article-id="${articleId}"]`)\<close>. When
  the id has no quote, backslash, line break, NUL or surrogate in it, the selector means
  the first element of the document with the class and that attribute value; any other
  selector text is left to the host.
\<close>

definition css_plain :: "jsstring \<Rightarrow> bool" where
  "css_plain s \<longleftrightarrow>
     (\<forall>c \<in> set s. c \<notin> {0x0, 0xA, 0xC, 0xD, 0x22, 0x5C} \<and> \<not> (0xD800 \<le> c \<and> c \<le> 0xDFFF))"

definition comments_list_for :: "host \<Rightarrow> world \<Rightarrow> jsstring \<Rightarrow> error + nat option" where
  "comments_list_for h w articleId =
     (if css_plain articleId then
        Inr (List.find
               (\<lambda>n. has_class w (asc ''comments-list'') n \<and>
                    map_of (dataset (nodes w n)) (asc ''articleId'') = Some articleId)
               (concat (map all_ids (doc w))))
      else querySelector_text h
             (asc ''.comments-list[data-article-id='' @ dq @ articleId @ dq @ asc '']'') w)"

definition nl_tabs :: "nat \<Rightarrow> jsstring" where
  "nl_tabs k = 0xA # replicate k 0x9"

text \<open>The template literal assigned to \<open>innerHTML\<close>, with its three interpolated
  strings: the escaped text, \<open>comment.created_at\<close> and \<open>comment.id\<close>.\<close>

definition comment_markup :: "jsstring \<Rightarrow> jsstring \<Rightarrow> jsstring \<Rightarrow> jsstring" where
  "comment_markup escaped created cid =
     nl_tabs 2 @ asc ''<div class='' @ dq @ asc ''comment-content'' @ dq @ asc ''>'' @
     nl_tabs 3 @ asc ''<p class='' @ dq @ asc ''comment-text'' @ dq @ asc ''>'' @
       escaped @ asc ''</p>'' @
     nl_tabs 3 @ asc ''<span class='' @ dq @ asc ''comment-date'' @ dq @ asc ''>'' @
       created @ asc ''</span>'' @
     nl_tabs 2 @ asc ''</div>'' @
     nl_tabs 2 @ asc ''<div class='' @ dq @ asc ''comment-actions'' @ dq @ asc ''>'' @
     nl_tabs 3 @ asc ''<button class='' @ dq @ asc ''edit-comment-btn'' @ dq @
       asc '' data-comment-id='' @ dq @ cid @ dq @ asc ''>'' @ lbl_edit @ asc ''</button>'' @
     nl_tabs 3 @ asc ''<button class='' @ dq @ asc ''delete-comment-btn'' @ dq @
       asc '' data-comment-id='' @ dq @ cid @ dq @ asc ''>'' @ lbl_delete @ asc ''</button>'' @
     nl_tabs 2 @ asc ''</div>'' @
     nl_tabs 1"

definition addCommentToDOM :: "host \<Rightarrow> jsval \<Rightarrow> jsval \<Rightarrow> world \<Rightarrow> error option \<times> world" where
  "addCommentToDOM h articleId comment w =
     (case comments_list_for h w (to_string h articleId) of
        Inl e \<Rightarrow> (Some e, w)
      | Inr None \<Rightarrow> (Some TypeError, w)
      | Inr (Some commentsList) \<Rightarrow>
          (let w1 = (case querySelector w commentsList (asc ''no-comments'') of
                       None \<Rightarrow> w
                     | Some noComments \<Rightarrow> remove_node noComments w);
               commentItem = fst (createElement w1);
               w2 = snd (createElement w1);
               w3 = update_node commentItem (\<lambda>n. n\<lparr>classList := [asc ''comment-item'']\<rparr>) w2
           in case get_prop comment (asc ''id'') of
                Inl e \<Rightarrow> (Some e, w3)
              | Inr cid \<Rightarrow>
                  (let w4 = update_node commentItem
                              (\<lambda>n. n\<lparr>dataset := (asc ''commentId'', to_string h cid) # dataset n\<rparr>) w3
                   in case get_prop comment (asc ''text'') of
                        Inl e \<Rightarrow> (Some e, w4)
                      | Inr txt \<Rightarrow>
                          (case escapeHtml txt of
                             Inl e \<Rightarrow> (Some e, w4)
                           | Inr escaped \<Rightarrow>
                               (case get_prop comment (asc ''created_at'') of
                                  Inl e \<Rightarrow> (Some e, w4)
                                | Inr created \<Rightarrow>
                                    appendChild commentsList commentItem
                                      (update_node commentItem
                                         (\<lambda>n. n\<lparr>innerHTML :=
                                            comment_markup escaped (to_string h created) (to_string h cid)\<rparr>)
                                         w4))))))"

subsection \<open>initCommentHandlers\<close>

definition add_comment_click :: "host \<Rightarrow> nat \<Rightarrow> world \<Rightarrow> outcome \<times> world" where
  "add_comment_click h this w =
     (let articleId = dataset_get w this (asc ''articleId'') in
      case previousElementSibling w this of
        None \<Rightarrow> (Threw TypeError, w)
      | Some commentInput \<Rightarrow>
          (case val (nodes w commentInput) of
             None \<Rightarrow> (Threw TypeError, w)
           | Some v \<Rightarrow>
               (let text = trim v in
                if text = [] then (Returned, alert msg_enter_comment w)
                else
                  (case getCookie h w (asc ''csrftoken'') of
                     Inl e \<Rightarrow> (Threw e, w)
                   | Inr token \<Rightarrow>
                       (Pending (AddCommentPending articleId commentInput),
                        fetch \<lparr>url = asc ''/api/add-comment/'',
                               http_method = asc ''POST'',
                               headers = [(asc ''Content-Type'', Str (asc ''application/json'')),
                                          (asc ''X-CSRFToken'', token)],
                               body = Some (Obj [(asc ''article_id'', articleId),
                                                 (asc ''text'', Str text)])\<rparr> w)))))"

definition add_comment_then ::
    "host \<Rightarrow> jsval \<Rightarrow> nat \<Rightarrow> jsval \<Rightarrow> world \<Rightarrow> error option \<times> world" where
  "add_comment_then h articleId commentInput data w =
     (case get_prop data (asc ''success'') of
        Inl e \<Rightarrow> (Some e, w)
      | Inr success \<Rightarrow>
          if truthy success then
            (case get_prop data (asc ''comment'') of
               Inl e \<Rightarrow> (Some e, w)
             | Inr comment \<Rightarrow>
                 (case addCommentToDOM h articleId comment w of
                    (Some e, w') \<Rightarrow> (Some e, w')
                  | (None, w') \<Rightarrow>
                      (None, update_node commentInput (\<lambda>n. n\<lparr>val := Some []\<rparr>) w')))
          else error_alert h data w)"

text \<open>The listener on \<open>document\<close> for editing; \<open>newText\<close> is what \<open>prompt\<close>
  returns: \<open>None\<close> when the dialog is cancelled.\<close>

definition edit_comment_click ::
    "host \<Rightarrow> nat \<Rightarrow> jsstring option \<Rightarrow> world \<Rightarrow> outcome \<times> world" where
  "edit_comment_click h target newText w =
     (if has_class w (asc ''edit-comment-btn'') target then
        (let commentId = dataset_get w target (asc ''commentId'') in
         case closest w target (asc ''comment-item'') of
           None \<Rightarrow> (Threw TypeError, w)
         | Some commentItem \<Rightarrow>
             (case querySelector w commentItem (asc ''comment-text'') of
                None \<Rightarrow> (Threw TypeError, w)
              | Some commentText \<Rightarrow>
                  (let currentText = trim (textContent (nodes w commentText)) in
                   case newText of
                     None \<Rightarrow> (Returned, w)
                   | Some new \<Rightarrow>
                       if new \<noteq> [] \<and> new \<noteq> currentText then
                         (case getCookie h w (asc ''csrftoken'') of
                            Inl e \<Rightarrow> (Threw e, w)
                          | Inr token \<Rightarrow>
                              (Pending (EditCommentPending commentItem commentText),
                               fetch \<lparr>url = asc ''/api/edit-comment/'' @ to_string h commentId @ asc ''/'',
                                      http_method = asc ''POST'',
                                      headers = [(asc ''Content-Type'', Str (asc ''application/json'')),
                                                 (asc ''X-CSRFToken'', token)],
                                      body = Some (Obj [(asc ''text'', Str new)])\<rparr> w))
                       else (Returned, w))))
      else (Returned, w))"

definition edit_comment_then :: "host \<Rightarrow> nat \<Rightarrow> nat \<Rightarrow> jsval \<Rightarrow> world \<Rightarrow> error option \<times> world" where
  "edit_comment_then h commentItem commentText data w =
     (case get_prop data (asc ''success'') of
        Inl e \<Rightarrow> (Some e, w)
      | Inr success \<Rightarrow>
          if truthy success then
            (case get_prop data (asc ''comment'') of
               Inl e \<Rightarrow> (Some e, w)
             | Inr comment \<Rightarrow>
                 (case get_prop comment (asc ''text'') of
                    Inl e \<Rightarrow> (Some e, w)
                  | Inr txt \<Rightarrow>
                      (let w1 = update_node commentText (\<lambda>n. n\<lparr>textContent := text_of h txt\<rparr>) w;
                           commentDate = querySelector w1 commentItem (asc ''comment-date'')
                       in case get_prop comment (asc ''created_at'') of
                            Inl e \<Rightarrow> (Some e, w1)
                          | Inr created \<Rightarrow>
                              (case commentDate of
                                 None \<Rightarrow> (Some TypeError, w1)
                               | Some d \<Rightarrow>
                                   (None, update_node d
                                            (\<lambda>n. n\<lparr>textContent := text_of h created\<rparr>) w1)))))
          else error_alert h data w)"

text \<open>The listener on \<open>document\<close> for deleting; \<open>confirmed\<close> is what
  \<open>confirm\<close> returns.\<close>

definition delete_comment_click :: "host \<Rightarrow> nat \<Rightarrow> bool \<Rightarrow> world \<Rightarrow> outcome \<times> world" where
  "delete_comment_click h target confirmed w =
     (if has_class w (asc ''delete-comment-btn'') target then
        (if \<not> confirmed then (Returned, w)
         else
           (let commentId = dataset_get w target (asc ''commentId'');
                commentItem = closest w target (asc ''comment-item'')
            in case getCookie h w (asc ''csrftoken'') of
                 Inl e \<Rightarrow> (Threw e, w)
               | Inr token \<Rightarrow>
                   (Pending (DeleteCommentPending commentItem),
                    fetch \<lparr>url = asc ''/api/delete-comment/'' @ to_string h commentId @ asc ''/'',
                           http_method = asc ''POST'',
                           headers = [(asc ''Content-Type'', Str (asc ''application/json'')),
                                      (asc ''X-CSRFToken'', token)],
                           body = None\<rparr> w)))
      else (Returned, w))"

definition delete_comment_then :: "host \<Rightarrow> nat option \<Rightarrow> jsval \<Rightarrow> world \<Rightarrow> error option \<times> world" where
  "delete_comment_then h commentItem data w =
     (case get_prop data (asc ''success'') of
        Inl e \<Rightarrow> (Some e, w)
      | Inr success \<Rightarrow>
          if truthy success then
            (case commentItem of
               None \<Rightarrow> (Some TypeError, w)
             | Some item \<Rightarrow>
                 (let w1 = remove_node item w;
                      commentsList = closest w1 item (asc ''comments-list'')
                  in case commentsList of
                       None \<Rightarrow> (None, w1)
                     | Some cl \<Rightarrow>
                         if querySelectorAll w1 cl (asc ''comment-item'') = [] then
                           (let noComments = fst (createElement w1);
                                w2 = snd (createElement w1);
                                w3 = update_node noComments
                                       (\<lambda>n. n\<lparr>classList := [asc ''no-comments'']\<rparr>) w2;
                                w4 = update_node noComments
                                       (\<lambda>n. n\<lparr>textContent := txt_no_comments\<rparr>) w3
                            in appendChild cl noComments w4)
                         else (None, w1)))
          else error_alert h data w)"

subsection \<open>The script as a whole\<close>

text \<open>The user's actions that reach a listener of the script, and the listener each
  one runs; then the callback chain of each pending request.\<close>

datatype event =
    FavoriteClick nat
  | ReactionClick nat
  | AddCommentClick nat
  | EditCommentClick nat "jsstring option"
  | DeleteCommentClick nat bool

fun handle :: "host \<Rightarrow> event \<Rightarrow> world \<Rightarrow> outcome \<times> world" where
  "handle h (FavoriteClick this) w = favorite_click h this w"
| "handle h (ReactionClick this) w = reaction_click h this w"
| "handle h (AddCommentClick this) w = add_comment_click h this w"
| "handle h (EditCommentClick target newText) w = edit_comment_click h target newText w"
| "handle h (DeleteCommentClick target confirmed) w = delete_comment_click h target confirmed w"

fun settle :: "host \<Rightarrow> pending \<Rightarrow> response \<Rightarrow> world \<Rightarrow> world" where
  "settle h (FavoritePending this) r w =
     on_settled msg_favorite_failed (favorite_then h this) r w"
| "settle h (ReactionPending this) r w =
     on_settled msg_reaction_failed (reaction_then h this) r w"
| "settle h (AddCommentPending articleId commentInput) r w =
     on_settled msg_add_comment_failed (add_comment_then h articleId commentInput) r w"
| "settle h (EditCommentPending commentItem commentText) r w =
     on_settled msg_edit_failed (edit_comment_then h commentItem commentText) r w"
| "settle h (DeleteCommentPending commentItem) r w =
     on_settled msg_delete_failed (delete_comment_then h commentItem) r w"

section \<open>A sample page\<close>

text \<open>
  One article card with a favourite button and two reaction buttons, a comment form,
  and a comments list holding one comment. The host agrees with the browser on the
  inputs used with it: \<open>decodeURIComponent\<close> leaves a string without \<open>%\<close> as it
  is, \<open>JSON.parse\<close> reads \<open>{}\<close> as the empty object, and the one number outside
  the safe range that is used with it, \<open>10^21\<close>, prints as \<open>1e+21\<close>.
\<close>

definition sample_host :: host where
  "sample_host = \<lparr>decodeURIComponent = (\<lambda>s. if 0x25 \<in> set s then Inl URIError else Inr s),
     JSON_parse = (\<lambda>s. if s = asc ''{}'' then Inr (Obj []) else Inl SyntaxError),
     number_to_string = (\<lambda>n. asc ''1e+21''),
     string_above_zero = (\<lambda>s. False),
     querySelector_text = (\<lambda>s w. Inl SyntaxError)\<rparr>"

definition sample_nodes :: "nat \<Rightarrow> node" where
  "sample_nodes n =
     (if n = 8 then blank\<lparr>classList := [asc ''news-card'']\<rparr>
      else if n = 2 then blank\<lparr>classList := [asc ''favorite-btn''],
             dataset := [(asc ''url'', asc ''http://a''), (asc ''source'', asc ''{}'')],
             title := title_add_favorite\<rparr>
      else if n = 3 then blank\<lparr>classList := [asc ''favorite-icon''], textContent := icon_star_empty\<rparr>
      else if n = 4 then blank\<lparr>classList := [asc ''reaction-btn'', asc ''active''],
             dataset := [(asc ''reaction'', asc ''liked''), (asc ''url'', asc ''http://a'')]\<rparr>
      else if n = 5 then blank\<lparr>classList := [asc ''reaction-count''], textContent := asc ''3'',
             display := asc ''inline''\<rparr>
      else if n = 6 then blank\<lparr>classList := [asc ''reaction-btn''],
             dataset := [(asc ''reaction'', asc ''useful''), (asc ''url'', asc ''http://a'')]\<rparr>
      else if n = 7 then blank\<lparr>classList := [asc ''reaction-count''], display := asc ''none''\<rparr>
      else if n = 9 then blank\<lparr>val := Some (asc ''  hi  '')\<rparr>
      else if n = 10 then blank\<lparr>classList := [asc ''add-comment-btn''],
             dataset := [(asc ''articleId'', asc ''7'')]\<rparr>
      else if n = 11 then blank\<lparr>classList := [asc ''comments-list''],
             dataset := [(asc ''articleId'', asc ''7'')]\<rparr>
      else if n = 12 then blank\<lparr>classList := [asc ''comment-item''],
             dataset := [(asc ''commentId'', asc ''5'')]\<rparr>
      else if n = 13 then blank\<lparr>classList := [asc ''comment-text''], textContent := asc '' old ''\<rparr>
      else if n = 14 then blank\<lparr>classList := [asc ''comment-date''], textContent := asc ''15.01.2025 10:00''\<rparr>
      else if n = 15 then blank\<lparr>classList := [asc ''edit-comment-btn''],
             dataset := [(asc ''commentId'', asc ''5'')]\<rparr>
      else if n = 16 then blank\<lparr>classList := [asc ''delete-comment-btn''],
             dataset := [(asc ''commentId'', asc ''5'')]\<rparr>
      else blank)"

definition sample_page :: world where
  "sample_page = \<lparr>doc = [T 0 [T 8 [T 2 [T 3 []], T 4 [T 5 []], T 6 [T 7 []]],
                             T 1 [T 9 [], T 10 []],
                             T 11 [T 12 [T 13 [], T 14 [], T 15 [], T 16 []]]]],
     detached = [], nodes = sample_nodes, next_id = 17,
     cookie = asc ''sessionid=abc; csrftoken=tok123'',
     alerts = [], console_errors = [], requests = []\<rparr>"


definition sample_failure :: jsval where
  "sample_failure = Obj [(asc ''success'', Bool False), (asc ''error'', Str (asc ''no''))]"

definition blank_input_page :: world where
  "blank_input_page = update_node 9 (\<lambda>n. n\<lparr>val := Some (asc ''   '')\<rparr>) sample_page"

definition sample_favorite_added :: jsval where
  "sample_favorite_added = Obj [(asc ''success'', Bool True), (asc ''is_favorite'', Bool True)]"



definition sample_counts :: jsval where
  "sample_counts = Obj [(asc ''useful'', Num 12), (asc ''shocking'', Num 0)]"

definition sample_counts_large :: jsval where
  "sample_counts_large = Obj [(asc ''useful'', Num 1000000000000000000000)]"

definition sample_success :: jsval where
  "sample_success = Obj [(asc ''success'', Bool True)]"

section \<open>Pages that differ only in what the reaction update touches\<close>

text \<open>Two worlds of the same shape whose elements agree on \<open>dataset\<close> and on
  every class but \<open>active\<close>: the queries of \<open>updateReactionButtons\<close> cannot tell
  them apart.\<close>

definition same_page :: "world \<Rightarrow> world \<Rightarrow> bool" where
  "same_page w w' \<longleftrightarrow>
     doc w' = doc w \<and> detached w' = detached w \<and>
     (\<forall>n. dataset (nodes w' n) = dataset (nodes w n)) \<and>
     (\<forall>n cls. cls \<noteq> asc ''active'' \<longrightarrow>
        (cls \<in> set (classList (nodes w' n)) \<longleftrightarrow> cls \<in> set (classList (nodes w n))))"

section \<open>Reading the parts of a world after each operation\<close>

lemma update_node_simps [simp]:
  "nodes (update_node n f w) = (nodes w)(n := f (nodes w n))"
  "doc (update_node n f w) = doc w"
  "detached (update_node n f w) = detached w"
  "next_id (update_node n f w) = next_id w"
  "cookie (update_node n f w) = cookie w"
  "alerts (update_node n f w) = alerts w"
  "console_errors (update_node n f w) = console_errors w"
  "requests (update_node n f w) = requests w"
  by (simp_all add: update_node_def)

lemma alert_simps [simp]:
  "nodes (alert m w) = nodes w"
  "doc (alert m w) = doc w"
  "detached (alert m w) = detached w"
  "next_id (alert m w) = next_id w"
  "cookie (alert m w) = cookie w"
  "alerts (alert m w) = alerts w @ [m]"
  "console_errors (alert m w) = console_errors w"
  "requests (alert m w) = requests w"
  by (simp_all add: alert_def)

lemma console_error_simps [simp]:
  "nodes (console_error e w) = nodes w"
  "doc (console_error e w) = doc w"
  "detached (console_error e w) = detached w"
  "next_id (console_error e w) = next_id w"
  "cookie (console_error e w) = cookie w"
  "alerts (console_error e w) = alerts w"
  "console_errors (console_error e w) = console_errors w @ [e]"
  "requests (console_error e w) = requests w"
  by (simp_all add: console_error_def)

lemma fetch_simps [simp]:
  "nodes (fetch rq w) = nodes w"
  "doc (fetch rq w) = doc w"
  "detached (fetch rq w) = detached w"
  "next_id (fetch rq w) = next_id w"
  "cookie (fetch rq w) = cookie w"
  "alerts (fetch rq w) = alerts w"
  "console_errors (fetch rq w) = console_errors w"
  "requests (fetch rq w) = requests w @ [rq]"
  by (simp_all add: fetch_def)

lemma remove_node_simps [simp]:
  "nodes (remove_node n w) = nodes w"
  "next_id (remove_node n w) = next_id w"
  "cookie (remove_node n w) = cookie w"
  "alerts (remove_node n w) = alerts w"
  "console_errors (remove_node n w) = console_errors w"
  "requests (remove_node n w) = requests w"
  by (simp_all add: remove_node_def split: option.splits)

lemma createElement_simps [simp]:
  "fst (createElement w) = next_id w"
  "nodes (snd (createElement w)) = (nodes w)(next_id w := blank)"
  "doc (snd (createElement w)) = doc w"
  "detached (snd (createElement w)) = detached w @ [T (next_id w) []]"
  "next_id (snd (createElement w)) = Suc (next_id w)"
  "cookie (snd (createElement w)) = cookie w"
  "alerts (snd (createElement w)) = alerts w"
  "console_errors (snd (createElement w)) = console_errors w"
  "requests (snd (createElement w)) = requests w"
  by (simp_all add: createElement_def)

lemma appendChild_simps [simp]:
  "nodes (snd (appendChild p c w)) = nodes w"
  "next_id (snd (appendChild p c w)) = next_id w"
  "cookie (snd (appendChild p c w)) = cookie w"
  "alerts (snd (appendChild p c w)) = alerts w"
  "console_errors (snd (appendChild p c w)) = console_errors w"
  "requests (snd (appendChild p c w)) = requests w"
  by (simp_all add: appendChild_def split: option.splits)

lemma catch_alert_simps [simp]:
  "nodes (catch_alert m e w) = nodes w"
  "doc (catch_alert m e w) = doc w"
  "detached (catch_alert m e w) = detached w"
  "next_id (catch_alert m e w) = next_id w"
  "cookie (catch_alert m e w) = cookie w"
  "alerts (catch_alert m e w) = alerts w @ [m]"
  "console_errors (catch_alert m e w) = console_errors w @ [e]"
  "requests (catch_alert m e w) = requests w"
  by (simp_all add: catch_alert_def)

section \<open>escapeHtml and the markup of a new comment\<close>







section \<open>Requests and failures\<close>

lemma get_prop_defined:
  "get_prop data k = Inr v \<Longrightarrow> \<exists>v'. get_prop data k' = Inr v'"
  by (cases data) (auto split: option.splits)

lemma error_alert_result:
  "get_prop data k = Inr v \<Longrightarrow>
     \<exists>msg. error_alert h data w = (None, alert msg w)"
  using get_prop_defined [of data k v "asc ''error''"]
  by (auto simp: error_alert_def)

lemma forEach_requests:
  assumes "\<And>x w. requests (snd (f x w)) = requests w"
  shows "requests (snd (forEach f xs w)) = requests w"
proof (induction xs arbitrary: w)
  case Nil
  show ?case by simp
next
  case (Cons x xs)
  obtain r w1 where step: "f x w = (r, w1)" by (cases "f x w")
  with assms [of x w] have "requests w1 = requests w" by simp
  with step Cons.IH [of w1] show ?case by (cases r) simp_all
qed

lemma update_reaction_button_requests:
  "requests (snd (update_reaction_button h rc ur b w)) = requests w"
  by (simp add: update_reaction_button_def Let_def split: option.splits)

lemma updateReactionButtons_requests:
  "requests (snd (updateReactionButtons h crd rc ur w)) = requests w"
  by (simp add: updateReactionButtons_def forEach_requests update_reaction_button_requests
      split: option.splits)

lemma error_alert_requests:
  "requests (snd (error_alert h data w)) = requests w"
  by (simp add: error_alert_def split: sum.splits)

lemma addCommentToDOM_requests:
  "requests (snd (addCommentToDOM h articleId comment w)) = requests w"
  by (simp add: addCommentToDOM_def Let_def split: sum.splits option.splits)

lemma favorite_then_requests:
  "requests (snd (favorite_then h this data w)) = requests w"
  by (simp add: favorite_then_def Let_def error_alert_requests split: sum.splits option.splits)

lemma reaction_then_requests:
  "requests (snd (reaction_then h this data w)) = requests w"
  by (simp add: reaction_then_def Let_def error_alert_requests updateReactionButtons_requests
      split: sum.splits option.splits)

lemma add_comment_then_requests:
  "requests (snd (add_comment_then h articleId inp data w)) = requests w"
proof -
  obtain r w1 where a: "addCommentToDOM h articleId (case get_prop data (asc ''comment'') of Inr c \<Rightarrow> c | Inl e \<Rightarrow> Null) w = (r, w1)"
    by (cases "addCommentToDOM h articleId (case get_prop data (asc ''comment'') of Inr c \<Rightarrow> c | Inl e \<Rightarrow> Null) w")
  with addCommentToDOM_requests [of h articleId _ w] have "requests w1 = requests w"
    by (metis snd_conv)
  with a show ?thesis
    by (auto simp: add_comment_then_def error_alert_requests split: sum.splits option.splits prod.splits)
qed

lemma edit_comment_then_requests:
  "requests (snd (edit_comment_then h item ct data w)) = requests w"
  by (simp add: edit_comment_then_def Let_def error_alert_requests split: sum.splits option.splits)

lemma delete_comment_then_requests:
  "requests (snd (delete_comment_then h item data w)) = requests w"
  by (simp add: delete_comment_then_def Let_def error_alert_requests split: sum.splits option.splits)

lemma on_settled_requests:
  assumes "\<And>data w. requests (snd (cb data w)) = requests w"
  shows "requests (on_settled msg cb r w) = requests w"
proof (cases r)
  case (Rejected e)
  then show ?thesis by (simp add: on_settled_def catch_alert_def)
next
  case (Parsed data)
  obtain x w1 where b: "cb data w = (x, w1)" by (cases "cb data w")
  with assms [of data w] have "requests w1 = requests w" by simp
  with Parsed b show ?thesis by (cases x) (simp_all add: on_settled_def catch_alert_def)
qed

lemma settle_requests: "requests (settle h p r w) = requests w"
  by (cases p)
    (simp_all add: on_settled_requests favorite_then_requests reaction_then_requests
      add_comment_then_requests edit_comment_then_requests delete_comment_then_requests)

lemma handle_requests:
  assumes "handle h ev w = (r, w')"
  shows "requests w' = requests w \<or>
     (\<exists>rq tok. requests w' = requests w @ [rq] \<and> http_method rq = asc ''POST'' \<and>
        headers rq = [(asc ''Content-Type'', Str (asc ''application/json'')),
                      (asc ''X-CSRFToken'', tok)] \<and>
        getCookie h w (asc ''csrftoken'') = Inr tok)"
proof (cases ev)
  case (FavoriteClick this)
  with assms show ?thesis
    by (auto simp: favorite_click_def Let_def split: sum.splits)
next
  case (ReactionClick this)
  with assms show ?thesis
    by (auto simp: reaction_click_def Let_def split: sum.splits)
next
  case (AddCommentClick this)
  with assms show ?thesis
    by (auto simp: add_comment_click_def Let_def split: sum.splits option.splits if_splits)
next
  case (EditCommentClick target newText)
  with assms show ?thesis
    by (auto simp: edit_comment_click_def Let_def split: sum.splits option.splits if_splits)
next
  case (DeleteCommentClick target confirmed)
  with assms show ?thesis
    by (auto simp: delete_comment_click_def Let_def split: sum.splits option.splits if_splits)
qed


lemma then_failure:
  assumes "get_prop data (asc ''success'') = Inr s" and "\<not> truthy s"
  shows "favorite_then h this data w = error_alert h data w"
    and "reaction_then h this data w = error_alert h data w"
    and "add_comment_then h articleId inp data w = error_alert h data w"
    and "edit_comment_then h item ct data w = error_alert h data w"
    and "delete_comment_then h oitem data w = error_alert h data w"
  using assms
  by (simp_all add: favorite_then_def reaction_then_def add_comment_then_def
      edit_comment_then_def delete_comment_then_def)

lemma on_settled_failure:
  assumes "(\<exists>e. r = Rejected e) \<or>
           (\<exists>data s. r = Parsed data \<and> get_prop data (asc ''success'') = Inr s \<and> \<not> truthy s \<and>
              cb data w = error_alert h data w)"
  shows "\<exists>m. alerts (on_settled msg cb r w) = alerts w @ [m] \<and>
           nodes (on_settled msg cb r w) = nodes w \<and>
           doc (on_settled msg cb r w) = doc w \<and>
           detached (on_settled msg cb r w) = detached w \<and>
           next_id (on_settled msg cb r w) = next_id w \<and>
           requests (on_settled msg cb r w) = requests w"
  using assms
proof (elim disjE exE conjE)
  fix e assume "r = Rejected e"
  then show ?thesis by (simp add: on_settled_def)
next
  fix data s
  assume r: "r = Parsed data" and s: "get_prop data (asc ''success'') = Inr s"
    and cb: "cb data w = error_alert h data w"
  from error_alert_result [OF s, of h w] obtain m where "error_alert h data w = (None, alert m w)"
    by blast
  with r cb show ?thesis by (simp add: on_settled_def)
qed

text \<open>
  C3. Whichever handler left the request pending: when the fetch or the parse rejects,
  or the parsed response carries a \<open>success\<close> that is \<open>false\<close> (or any other
  falsy value), the callback chain shows exactly one alert, leaves every element and
  the shape of the page as they were, and issues no request.
\<close>

theorem failure_alerts_once:
  assumes "(\<exists>e. r = Rejected e) \<or>
           (\<exists>data s. r = Parsed data \<and> get_prop data (asc ''success'') = Inr s \<and> \<not> truthy s)"
  shows "\<exists>m. alerts (settle h p r w) = alerts w @ [m] \<and>
           nodes (settle h p r w) = nodes w \<and>
           doc (settle h p r w) = doc w \<and>
           detached (settle h p r w) = detached w \<and>
           next_id (settle h p r w) = next_id w \<and>
           requests (settle h p r w) = requests w"
proof (cases p)
  case (FavoritePending this)
  from assms show ?thesis
    unfolding FavoritePending settle.simps
    by (intro on_settled_failure) (auto simp: then_failure)
next
  case (ReactionPending this)
  from assms show ?thesis
    unfolding ReactionPending settle.simps
    by (intro on_settled_failure) (auto simp: then_failure)
next
  case (AddCommentPending articleId inp)
  from assms show ?thesis
    unfolding AddCommentPending settle.simps
    by (intro on_settled_failure) (auto simp: then_failure)
next
  case (EditCommentPending item ct)
  from assms show ?thesis
    unfolding EditCommentPending settle.simps
    by (intro on_settled_failure) (auto simp: then_failure)
next
  case (DeleteCommentPending oitem)
  from assms show ?thesis
    unfolding DeleteCommentPending settle.simps
    by (intro on_settled_failure) (auto simp: then_failure)
qed

theorem failure_alerts_once_witness:
  "length (alerts (settle sample_host (EditCommentPending 12 13) (Parsed sample_failure) sample_page)) = 1 \<and>
   nodes (settle sample_host (EditCommentPending 12 13) (Parsed sample_failure) sample_page) = sample_nodes \<and>
   requests (settle sample_host (EditCommentPending 12 13) (Parsed sample_failure) sample_page) = [] \<and>
   length (alerts (settle sample_host (FavoritePending 2) (Rejected NetworkError) sample_page)) = 1"
proof -
  have s: "get_prop sample_failure (asc ''success'') = Inr (Bool False)"
    by code_simp
  have "\<exists>data s. Parsed sample_failure = Parsed data \<and>
          get_prop data (asc ''success'') = Inr s \<and> \<not> truthy s"
    using s by auto
  from failure_alerts_once [of "Parsed sample_failure" sample_host "EditCommentPending 12 13" sample_page]
       failure_alerts_once [of "Rejected NetworkError" sample_host "FavoritePending 2" sample_page]
       this
  show ?thesis
    by (auto simp: sample_page_def)
qed

text \<open>
  C1. A click handler issues at most one request. A request it issues, whichever of the
  five \<open>fetch\<close> calls made it, has method \<open>POST\<close> and exactly the headers
  \<open>Content-Type: application/json\<close> and \<open>X-CSRFToken\<close>, the latter holding what
  \<open>getCookie('csrftoken')\<close> returned. The callbacks that run when a request settles
  issue none.
\<close>

theorem requests_are_csrf_posts:
  "(handle h ev w = (r, w') \<longrightarrow>
      requests w' = requests w \<or>
      (\<exists>rq tok. requests w' = requests w @ [rq] \<and> http_method rq = asc ''POST'' \<and>
         headers rq = [(asc ''Content-Type'', Str (asc ''application/json'')),
                       (asc ''X-CSRFToken'', tok)] \<and>
         getCookie h w (asc ''csrftoken'') = Inr tok)) \<and>
   requests (settle h p resp w) = requests w"
  using handle_requests [of h ev w r w'] settle_requests [of h p resp w] by blast

theorem requests_are_csrf_posts_witness:
  "getCookie sample_host sample_page (asc ''csrftoken'') = Inr (Str (asc ''tok123'')) \<and>
   map http_method (requests (snd (handle sample_host (DeleteCommentClick 16 True) sample_page))) = [asc ''POST''] \<and>
   map headers (requests (snd (handle sample_host (DeleteCommentClick 16 True) sample_page))) =
     [[(asc ''Content-Type'', Str (asc ''application/json'')), (asc ''X-CSRFToken'', Str (asc ''tok123''))]]"
proof -
  have tok: "getCookie sample_host sample_page (asc ''csrftoken'') = Inr (Str (asc ''tok123''))"
    by code_simp
  have len: "length (requests (snd (handle sample_host (DeleteCommentClick 16 True) sample_page))) = 1"
    by code_simp
  have none: "requests sample_page = []"
    by (simp add: sample_page_def)
  let ?w' = "snd (handle sample_host (DeleteCommentClick 16 True) sample_page)"
  from requests_are_csrf_posts
         [of sample_host "DeleteCommentClick 16 True" sample_page
             "fst (handle sample_host (DeleteCommentClick 16 True) sample_page)" ?w'
             "FavoritePending 2" "Rejected NetworkError"]
  have "requests ?w' = requests sample_page \<or>
      (\<exists>rq tok. requests ?w' = requests sample_page @ [rq] \<and> http_method rq = asc ''POST'' \<and>
         headers rq = [(asc ''Content-Type'', Str (asc ''application/json'')),
                       (asc ''X-CSRFToken'', tok)] \<and>
         getCookie sample_host sample_page (asc ''csrftoken'') = Inr tok)"
    by simp
  with len none obtain rq where "requests ?w' = [rq]" "http_method rq = asc ''POST''"
    "headers rq = [(asc ''Content-Type'', Str (asc ''application/json'')),
                   (asc ''X-CSRFToken'', Str (asc ''tok123''))]"
    using tok by auto
  with tok show ?thesis
    by simp
qed


section \<open>The add-comment click\<close>

lemma trim_empty_iff: "trim v = [] \<longleftrightarrow> (\<forall>c \<in> set v. is_ws c)"
proof
  assume "trim v = []"
  then have rest: "\<forall>c \<in> set (dropWhile is_ws v). is_ws c"
    by (simp add: trim_def dropWhile_eq_Nil_conv)
  have "dropWhile is_ws v = []"
  proof (rule ccontr)
    assume ne: "dropWhile is_ws v \<noteq> []"
    then have "\<not> is_ws (hd (dropWhile is_ws v))"
      by (rule hd_dropWhile)
    moreover from ne have "hd (dropWhile is_ws v) \<in> set (dropWhile is_ws v)"
      by (rule hd_in_set)
    ultimately show False
      using rest by blast
  qed
  then show "\<forall>c \<in> set v. is_ws c"
    by (simp add: dropWhile_eq_Nil_conv)
next
  assume "\<forall>c \<in> set v. is_ws c"
  then show "trim v = []"
    by (auto simp: trim_def dropWhile_eq_Nil_conv dest: set_dropWhileD)
qed

text \<open>
  C2. Let the element before the add-comment button be an input holding the string
  \<open>v\<close>. \<open>v.trim()\<close> is empty exactly when \<open>v\<close> is empty or white space only.
  When it is empty the click handler shows the alert and returns, with no request. When
  it is not empty, and reading the CSRF cookie does not throw, the handler issues
  exactly one request: a \<open>POST\<close> to \<open>/api/add-comment/\<close> whose body holds the
  button's article id and the trimmed text.
\<close>

theorem add_comment_click_validates:
  assumes "previousElementSibling w this = Some inp" and "val (nodes w inp) = Some v"
  shows "(trim v = [] \<longleftrightarrow> (\<forall>c \<in> set v. is_ws c)) \<and>
         (trim v = [] \<longrightarrow>
            handle h (AddCommentClick this) w = (Returned, alert msg_enter_comment w) \<and>
            alerts (snd (handle h (AddCommentClick this) w)) = alerts w @ [msg_enter_comment] \<and>
            requests (snd (handle h (AddCommentClick this) w)) = requests w) \<and>
         (trim v \<noteq> [] \<and> getCookie h w (asc ''csrftoken'') = Inr tok \<longrightarrow>
            handle h (AddCommentClick this) w =
              (Pending (AddCommentPending (dataset_get w this (asc ''articleId'')) inp),
               fetch \<lparr>url = asc ''/api/add-comment/'',
                      http_method = asc ''POST'',
                      headers = [(asc ''Content-Type'', Str (asc ''application/json'')),
                                 (asc ''X-CSRFToken'', tok)],
                      body = Some (Obj [(asc ''article_id'', dataset_get w this (asc ''articleId'')),
                                        (asc ''text'', Str (trim v))])\<rparr> w) \<and>
            alerts (snd (handle h (AddCommentClick this) w)) = alerts w \<and>
            requests (snd (handle h (AddCommentClick this) w)) =
              requests w @
              [\<lparr>url = asc ''/api/add-comment/'',
                http_method = asc ''POST'',
                headers = [(asc ''Content-Type'', Str (asc ''application/json'')),
                           (asc ''X-CSRFToken'', tok)],
                body = Some (Obj [(asc ''article_id'', dataset_get w this (asc ''articleId'')),
                                  (asc ''text'', Str (trim v))])\<rparr>])"
  using assms trim_empty_iff [of v] by (simp add: add_comment_click_def Let_def)

theorem add_comment_click_validates_witness:
  "handle sample_host (AddCommentClick 10) blank_input_page =
     (Returned, alert msg_enter_comment blank_input_page) \<and>
   requests (snd (handle sample_host (AddCommentClick 10) sample_page)) =
     [\<lparr>url = asc ''/api/add-comment/'',
       http_method = asc ''POST'',
       headers = [(asc ''Content-Type'', Str (asc ''application/json'')),
                  (asc ''X-CSRFToken'', Str (asc ''tok123''))],
       body = Some (Obj [(asc ''article_id'', Str (asc ''7'')),
                         (asc ''text'', Str (asc ''hi''))])\<rparr>]"
proof -
  have sib: "previousElementSibling sample_page 10 = Some 9"
    by code_simp
  have sib': "previousElementSibling blank_input_page 10 = Some 9"
    by code_simp
  have v: "val (nodes sample_page 9) = Some (asc ''  hi  '')"
    by code_simp
  have v': "val (nodes blank_input_page 9) = Some (asc ''   '')"
    by code_simp
  have t: "trim (asc ''  hi  '') = asc ''hi''" "asc ''hi'' \<noteq> []"
    by code_simp+
  have t': "trim (asc ''   '') = []"
    by code_simp
  have tok: "getCookie sample_host sample_page (asc ''csrftoken'') = Inr (Str (asc ''tok123''))"
    by code_simp
  have aid: "dataset_get sample_page 10 (asc ''articleId'') = Str (asc ''7'')"
    by code_simp
  have none: "requests sample_page = []"
    by (simp add: sample_page_def)
  from add_comment_click_validates [OF sib v, of sample_host "Str (asc ''tok123'')"]
       add_comment_click_validates [OF sib' v', of sample_host Null]
  show ?thesis
    by (simp add: t t' tok aid none)
qed

section \<open>Successful responses\<close>

lemma world_nodes_eq:
  "nodes w' = f \<Longrightarrow> doc w' = doc w \<Longrightarrow> detached w' = detached w \<Longrightarrow> next_id w' = next_id w \<Longrightarrow>
   cookie w' = cookie w \<Longrightarrow> alerts w' = alerts w \<Longrightarrow> console_errors w' = console_errors w \<Longrightarrow>
   requests w' = requests w \<Longrightarrow> w' = (w::world)\<lparr>nodes := f\<rparr>"
  by (cases w, cases w') simp

text \<open>
  C5. When the toggle-favourite response has a truthy \<open>success\<close> and the button
  contains a \<open>.favorite-icon\<close> element, the callback changes exactly two things in
  the whole world: the icon's text becomes the filled star when \<open>is_favorite\<close> is
  truthy and the empty star otherwise, and the button's title becomes the matching
  remove or add label.
\<close>

theorem favorite_success_swaps_icon:
  assumes "get_prop data (asc ''success'') = Inr s" and "truthy s"
    and "get_prop data (asc ''is_favorite'') = Inr f"
    and "querySelector w this (asc ''favorite-icon'') = Some icon"
  shows "settle h (FavoritePending this) (Parsed data) w =
           w\<lparr>nodes := (\<lambda>n. (nodes w n)
              \<lparr>textContent := (if n = icon
                                then (if truthy f then icon_star_filled else icon_star_empty)
                                else textContent (nodes w n)),
               title := (if n = this
                         then (if truthy f then title_remove_favorite else title_add_favorite)
                         else title (nodes w n))\<rparr>)\<rparr>"
  using assms
  by (intro world_nodes_eq) (auto simp: on_settled_def favorite_then_def fun_eq_iff)


theorem favorite_success_swaps_icon_witness:
  "querySelector sample_page 2 (asc ''favorite-icon'') = Some 3 \<and>
   textContent (nodes (settle sample_host (FavoritePending 2) (Parsed sample_favorite_added) sample_page) 3) =
     icon_star_filled \<and>
   title (nodes (settle sample_host (FavoritePending 2) (Parsed sample_favorite_added) sample_page) 2) =
     title_remove_favorite \<and>
   classList (nodes (settle sample_host (FavoritePending 2) (Parsed sample_favorite_added) sample_page) 2) =
     [asc ''favorite-btn'']"
proof -
  have s: "get_prop sample_favorite_added (asc ''success'') = Inr (Bool True)"
    by code_simp
  have f: "get_prop sample_favorite_added (asc ''is_favorite'') = Inr (Bool True)"
    by code_simp
  have icon: "querySelector sample_page 2 (asc ''favorite-icon'') = Some 3"
    by code_simp
  have cls: "classList (nodes sample_page 2) = [asc ''favorite-btn'']"
    by code_simp
  from favorite_success_swaps_icon [OF s _ f icon, of sample_host] icon cls
  show ?thesis
    by simp
qed










section \<open>updateReactionButtons\<close>

lemma same_page_refl: "same_page w w"
  by (simp add: same_page_def)

lemma same_page_trans: "same_page w w1 \<Longrightarrow> same_page w1 w2 \<Longrightarrow> same_page w w2"
  by (simp add: same_page_def)

lemma same_page_querySelectorAll:
  assumes "same_page w w'" and "cls \<noteq> asc ''active''"
  shows "querySelectorAll w' el cls = querySelectorAll w el cls"
proof -
  have "has_class w' cls = has_class w cls"
    using assms by (auto simp: has_class_def same_page_def fun_eq_iff)
  moreover have "forest w' = forest w"
    using assms by (simp add: forest_def same_page_def)
  ultimately show ?thesis
    by (simp add: querySelectorAll_def split: option.splits)
qed

lemma same_page_querySelector:
  "same_page w w' \<Longrightarrow> cls \<noteq> asc ''active'' \<Longrightarrow> querySelector w' el cls = querySelector w el cls"
  by (simp add: querySelector_def same_page_querySelectorAll)

lemma same_page_dataset_get: "same_page w w' \<Longrightarrow> dataset_get w' n k = dataset_get w n k"
  by (simp add: dataset_get_def same_page_def)

lemma count_class_not_active: "asc ''reaction-count'' \<noteq> asc ''active''"
  by (simp add: asc_def)

lemma classList_remove_simps [simp]:
  "classList (classList_remove cls n) = filter (\<lambda>c. c \<noteq> cls) (classList n)"
  "dataset (classList_remove cls n) = dataset n"
  "textContent (classList_remove cls n) = textContent n"
  "display (classList_remove cls n) = display n"
  by (simp_all add: classList_remove_def)

lemma classList_add_simps [simp]:
  "set (classList (classList_add cls n)) = insert cls (set (classList n))"
  "dataset (classList_add cls n) = dataset n"
  "textContent (classList_add cls n) = textContent n"
  "display (classList_add cls n) = display n"
  by (auto simp: classList_add_def)

lemma strict_eq_dataset_get:
  "strict_eq u (dataset_get w b k) \<longleftrightarrow> u = dataset_get w b k"
  by (cases u) (auto simp: dataset_get_def split: option.splits)

lemma step_same_page:
  "same_page w (snd (update_reaction_button h rc ur b w))"
  by (auto simp: update_reaction_button_def Let_def same_page_def split: option.splits)

lemma step_other_classes:
  "n \<noteq> b \<Longrightarrow>
     classList (nodes (snd (update_reaction_button h rc ur b w)) n) = classList (nodes w n)"
  by (auto simp: update_reaction_button_def Let_def split: option.splits)

lemma step_active:
  "has_class (snd (update_reaction_button h rc ur b w)) (asc ''active'') b \<longleftrightarrow>
     ur = dataset_get w b (asc ''reaction'')"
  by (auto simp: update_reaction_button_def Let_def has_class_def strict_eq_dataset_get
      split: option.splits)

lemma step_count_element:
  assumes "update_reaction_button h rc ur b w = (None, w')"
    and "querySelector w b (asc ''reaction-count'') = Some ce"
  shows "textContent (nodes w' ce) =
           (if above_zero h (reaction_count h rc (dataset_get w b (asc ''reaction'')))
            then text_of h (reaction_count h rc (dataset_get w b (asc ''reaction''))) else [])"
    and "display (nodes w' ce) =
           (if above_zero h (reaction_count h rc (dataset_get w b (asc ''reaction'')))
            then asc ''inline'' else asc ''none'')"
  using assms
  by (auto simp: update_reaction_button_def Let_def split: option.splits if_splits)

lemma step_other_count_element:
  assumes "querySelector w b (asc ''reaction-count'') \<noteq> Some ce"
  shows "textContent (nodes (snd (update_reaction_button h rc ur b w)) ce) = textContent (nodes w ce)"
    and "display (nodes (snd (update_reaction_button h rc ur b w)) ce) = display (nodes w ce)"
  using assms
  by (auto simp: update_reaction_button_def Let_def split: option.splits if_splits)

lemma forEach_same_page:
  "same_page w (snd (forEach (update_reaction_button h rc ur) xs w))"
proof (induction xs arbitrary: w)
  case Nil
  show ?case by (simp add: same_page_refl)
next
  case (Cons x xs)
  obtain r w1 where step: "update_reaction_button h rc ur x w = (r, w1)"
    by (cases "update_reaction_button h rc ur x w")
  with step_same_page [of w h rc ur x] have "same_page w w1" by simp
  with step Cons.IH [of w1] show ?case
    by (cases r) (auto intro: same_page_trans)
qed

lemma forEach_other_classes:
  "b \<notin> set xs \<Longrightarrow>
     classList (nodes (snd (forEach (update_reaction_button h rc ur) xs w)) b) = classList (nodes w b)"
proof (induction xs arbitrary: w)
  case Nil
  show ?case by simp
next
  case (Cons x xs)
  obtain r w1 where step: "update_reaction_button h rc ur x w = (r, w1)"
    by (cases "update_reaction_button h rc ur x w")
  from Cons.prems have "b \<noteq> x" "b \<notin> set xs" by auto
  with step_other_classes [of b x h rc ur w] step
  have "classList (nodes w1 b) = classList (nodes w b)" by simp
  with step Cons.IH [OF \<open>b \<notin> set xs\<close>, of w1] show ?case
    by (cases r) auto
qed

lemma forEach_active:
  assumes "forEach (update_reaction_button h rc ur) xs w = (None, w')" and "b \<in> set xs"
  shows "has_class w' (asc ''active'') b \<longleftrightarrow> ur = dataset_get w b (asc ''reaction'')"
  using assms
proof (induction xs arbitrary: w)
  case Nil
  then show ?case by simp
next
  case (Cons x xs)
  obtain r w1 where step: "update_reaction_button h rc ur x w = (r, w1)"
    by (cases "update_reaction_button h rc ur x w")
  with Cons.prems(1) have r: "r = None" and rest: "forEach (update_reaction_button h rc ur) xs w1 = (None, w')"
    by (cases r; simp)+
  have page: "same_page w w1"
    using step_same_page [of w h rc ur x] step by simp
  show ?case
  proof (cases "b \<in> set xs")
    case True
    with Cons.IH [OF rest] same_page_dataset_get [OF page] show ?thesis by simp
  next
    case False
    with Cons.prems(2) have "b = x" by simp
    moreover from False forEach_other_classes [of b xs h rc ur w1] rest
    have "classList (nodes w' b) = classList (nodes w1 b)" by simp
    ultimately show ?thesis
      using step_active [of h rc ur x w] step by (simp add: has_class_def)
  qed
qed

lemma forEach_other_count_element:
  assumes "\<forall>b \<in> set xs. querySelector w b (asc ''reaction-count'') \<noteq> Some ce"
  shows "textContent (nodes (snd (forEach (update_reaction_button h rc ur) xs w)) ce) = textContent (nodes w ce) \<and>
         display (nodes (snd (forEach (update_reaction_button h rc ur) xs w)) ce) = display (nodes w ce)"
  using assms
proof (induction xs arbitrary: w)
  case Nil
  show ?case by simp
next
  case (Cons x xs)
  obtain r w1 where step: "update_reaction_button h rc ur x w = (r, w1)"
    by (cases "update_reaction_button h rc ur x w")
  have page: "same_page w w1"
    using step_same_page [of w h rc ur x] step by simp
  from Cons.prems have x: "querySelector w x (asc ''reaction-count'') \<noteq> Some ce"
    and xs: "\<forall>b \<in> set xs. querySelector w1 b (asc ''reaction-count'') \<noteq> Some ce"
    by (simp_all add: same_page_querySelector [OF page count_class_not_active])
  from step_other_count_element [OF x, of h rc ur] step
  have "textContent (nodes w1 ce) = textContent (nodes w ce)" "display (nodes w1 ce) = display (nodes w ce)"
    by simp_all
  with step Cons.IH [OF xs] show ?case
    by (cases r) auto
qed

lemma forEach_count_element:
  assumes "forEach (update_reaction_button h rc ur) xs w = (None, w')" and "b \<in> set xs"
    and "querySelector w b (asc ''reaction-count'') = Some ce"
    and "\<forall>b' \<in> set xs. querySelector w b' (asc ''reaction-count'') = Some ce \<longrightarrow> b' = b"
  shows "textContent (nodes w' ce) =
           (if above_zero h (reaction_count h rc (dataset_get w b (asc ''reaction'')))
            then text_of h (reaction_count h rc (dataset_get w b (asc ''reaction''))) else []) \<and>
         display (nodes w' ce) =
           (if above_zero h (reaction_count h rc (dataset_get w b (asc ''reaction'')))
            then asc ''inline'' else asc ''none'')"
  using assms
proof (induction xs arbitrary: w)
  case Nil
  then show ?case by simp
next
  case (Cons x xs)
  obtain r w1 where step: "update_reaction_button h rc ur x w = (r, w1)"
    by (cases "update_reaction_button h rc ur x w")
  with Cons.prems(1) have r: "r = None" and rest: "forEach (update_reaction_button h rc ur) xs w1 = (None, w')"
    by (cases r; simp)+
  have page: "same_page w w1"
    using step_same_page [of w h rc ur x] step by simp
  note q = same_page_querySelector [OF page count_class_not_active]
  note d = same_page_dataset_get [OF page]
  show ?case
  proof (cases "b \<in> set xs")
    case True
    from Cons.IH [OF rest True] Cons.prems(3,4) show ?thesis
      by (simp add: q d)
  next
    case False
    with Cons.prems(2) have bx: "b = x" by simp
    from False Cons.prems(4) have "\<forall>b' \<in> set xs. querySelector w1 b' (asc ''reaction-count'') \<noteq> Some ce"
      by (auto simp: q)
    from forEach_other_count_element [OF this, of h rc ur] rest
    have "textContent (nodes w' ce) = textContent (nodes w1 ce)" "display (nodes w' ce) = display (nodes w1 ce)"
      by simp_all
    with step_count_element [of h rc ur x w w1 ce] step r Cons.prems(3) bx show ?thesis
      by simp
  qed
qed


text \<open>
  C4. When \<open>updateReactionButtons\<close> has run to its end on a card, a reaction button
  of the card has the class \<open>active\<close> exactly when its \<open>data-reaction\<close> equals
  the resulting reaction type. So no button is active when that type is \<open>null\<close>, and
  at most one is when the card's buttons carry different reaction types.
\<close>

theorem reaction_buttons_active:
  assumes "updateReactionButtons h (Some el) rc ur w = (None, w')"
  shows "(\<forall>b \<in> set (querySelectorAll w el (asc ''reaction-btn'')).
            has_class w' (asc ''active'') b \<longleftrightarrow> ur = dataset_get w b (asc ''reaction'')) \<and>
         (ur = Null \<longrightarrow>
            (\<forall>b \<in> set (querySelectorAll w el (asc ''reaction-btn'')).
               \<not> has_class w' (asc ''active'') b)) \<and>
         (inj_on (\<lambda>b. dataset_get w b (asc ''reaction''))
                 (set (querySelectorAll w el (asc ''reaction-btn''))) \<longrightarrow>
            (\<forall>b1 \<in> set (querySelectorAll w el (asc ''reaction-btn'')).
             \<forall>b2 \<in> set (querySelectorAll w el (asc ''reaction-btn'')).
               has_class w' (asc ''active'') b1 \<and> has_class w' (asc ''active'') b2 \<longrightarrow> b1 = b2))"
proof -
  let ?btns = "querySelectorAll w el (asc ''reaction-btn'')"
  from assms have run: "forEach (update_reaction_button h rc ur) ?btns w = (None, w')"
    by (simp add: updateReactionButtons_def)
  have iff: "has_class w' (asc ''active'') b \<longleftrightarrow> ur = dataset_get w b (asc ''reaction'')"
    if "b \<in> set ?btns" for b
    using forEach_active [OF run that] .
  have never_null: "dataset_get w b (asc ''reaction'') \<noteq> Null" for b
    by (simp add: dataset_get_def split: option.splits)
  show ?thesis
  proof (intro conjI impI ballI)
    fix b assume "b \<in> set ?btns"
    then show "has_class w' (asc ''active'') b \<longleftrightarrow> ur = dataset_get w b (asc ''reaction'')"
      by (rule iff)
  next
    fix b assume "ur = Null" and "b \<in> set ?btns"
    with iff [of b] never_null [of b] show "\<not> has_class w' (asc ''active'') b"
      by auto
  next
    fix b1 b2
    assume inj: "inj_on (\<lambda>b. dataset_get w b (asc ''reaction'')) (set ?btns)"
      and b1: "b1 \<in> set ?btns" and b2: "b2 \<in> set ?btns"
      and act: "has_class w' (asc ''active'') b1 \<and> has_class w' (asc ''active'') b2"
    from act iff [OF b1] iff [OF b2]
    have "dataset_get w b1 (asc ''reaction'') = dataset_get w b2 (asc ''reaction'')"
      by blast
    with inj b1 b2 show "b1 = b2"
      by (auto dest: inj_onD)
  qed
qed

theorem reaction_buttons_active_witness:
  "querySelectorAll sample_page 8 (asc ''reaction-btn'') = [4, 6] \<and>
   has_class (snd (updateReactionButtons sample_host (Some 8) sample_counts (Str (asc ''useful'')) sample_page))
     (asc ''active'') 6 \<and>
   \<not> has_class (snd (updateReactionButtons sample_host (Some 8) sample_counts (Str (asc ''useful'')) sample_page))
     (asc ''active'') 4 \<and>
   \<not> has_class (snd (updateReactionButtons sample_host (Some 8) sample_counts Null sample_page))
     (asc ''active'') 4"
proof -
  let ?run = "updateReactionButtons sample_host (Some 8) sample_counts (Str (asc ''useful'')) sample_page"
  let ?cleared = "updateReactionButtons sample_host (Some 8) sample_counts Null sample_page"
  have btns: "querySelectorAll sample_page 8 (asc ''reaction-btn'') = [4, 6]"
    by code_simp
  have ok: "fst ?run = None" "fst ?cleared = None"
    by code_simp+
  then have run: "?run = (None, snd ?run)" and cleared: "?cleared = (None, snd ?cleared)"
    by (simp_all add: prod_eq_iff)
  have types: "dataset_get sample_page 4 (asc ''reaction'') = Str (asc ''liked'')"
    "dataset_get sample_page 6 (asc ''reaction'') = Str (asc ''useful'')"
    by code_simp+
  have neq: "asc ''useful'' \<noteq> asc ''liked''"
    by (simp add: asc_def)
  have in4: "4 \<in> set (querySelectorAll sample_page 8 (asc ''reaction-btn''))"
    and in6: "6 \<in> set (querySelectorAll sample_page 8 (asc ''reaction-btn''))"
    by (simp_all add: btns)
  from types neq have t4: "Str (asc ''useful'') \<noteq> dataset_get sample_page 4 (asc ''reaction'')"
    and t6: "Str (asc ''useful'') = dataset_get sample_page 6 (asc ''reaction'')"
    by simp_all
  from reaction_buttons_active [OF run] in6 t6
  have a6: "has_class (snd ?run) (asc ''active'') 6"
    by blast
  from reaction_buttons_active [OF run] in4 t4
  have a4: "\<not> has_class (snd ?run) (asc ''active'') 4"
    by blast
  from reaction_buttons_active [OF cleared] in4
  have c4: "\<not> has_class (snd ?cleared) (asc ''active'') 4"
    by blast
  from btns a6 a4 c4 show ?thesis
    by blast
qed

lemma reaction_count_positive:
  assumes "map_of ps (to_string h rt) = Some (Num n)" and "0 < n"
  shows "reaction_count h (Obj ps) rt = Num n"
  using assms by (simp add: reaction_count_def)

lemma reaction_count_absent:
  assumes "\<not> truthy rc \<or>
           (\<exists>ps. rc = Obj ps \<and>
              (map_of ps (to_string h rt) = None \<or>
               (\<exists>v. map_of ps (to_string h rt) = Some v \<and> \<not> truthy v)))"
  shows "reaction_count h rc rt = Num 0"
  using assms by (auto simp: reaction_count_def)

text \<open>
  C6. When \<open>updateReactionButtons\<close> has run to its end on a card, take a reaction
  button of the card and its \<open>.reaction-count\<close> element, which no other button of the
  card has as its count element. If \<open>reactionsCount\<close> is an object that gives the
  button's reaction type a number above zero, the count element shows that number, as
  its string conversion, and is displayed \<open>inline\<close>; below \<open>2^53\<close> the string is
  the number's decimal digits. If \<open>reactionsCount\<close> is falsy, or an object that has no
  entry for the type or a falsy one, the count element's text is empty and its display
  is \<open>none\<close>. In general the element is shown exactly when the count read is above
  zero.
\<close>

theorem reaction_counts_shown:
  assumes "updateReactionButtons h (Some el) rc ur w = (None, w')"
    and "b \<in> set (querySelectorAll w el (asc ''reaction-btn''))"
    and "querySelector w b (asc ''reaction-count'') = Some ce"
    and "\<forall>b' \<in> set (querySelectorAll w el (asc ''reaction-btn'')).
           querySelector w b' (asc ''reaction-count'') = Some ce \<longrightarrow> b' = b"
  shows "(\<forall>ps n. rc = Obj ps \<and>
            map_of ps (to_string h (dataset_get w b (asc ''reaction''))) = Some (Num n) \<and> 0 < n \<longrightarrow>
            textContent (nodes w' ce) = to_string h (Num n) \<and>
            display (nodes w' ce) = asc ''inline'' \<and>
            (n < 9007199254740992 \<longrightarrow> textContent (nodes w' ce) = show_int n)) \<and>
         (\<not> truthy rc \<or>
          (\<exists>ps. rc = Obj ps \<and>
             (map_of ps (to_string h (dataset_get w b (asc ''reaction''))) = None \<or>
              (\<exists>v. map_of ps (to_string h (dataset_get w b (asc ''reaction''))) = Some v \<and>
                   \<not> truthy v))) \<longrightarrow>
            textContent (nodes w' ce) = [] \<and> display (nodes w' ce) = asc ''none'') \<and>
         (above_zero h (reaction_count h rc (dataset_get w b (asc ''reaction''))) \<longrightarrow>
            textContent (nodes w' ce) = text_of h (reaction_count h rc (dataset_get w b (asc ''reaction''))) \<and>
            display (nodes w' ce) = asc ''inline'') \<and>
         (\<not> above_zero h (reaction_count h rc (dataset_get w b (asc ''reaction''))) \<longrightarrow>
            textContent (nodes w' ce) = [] \<and> display (nodes w' ce) = asc ''none'')"
proof -
  let ?btns = "querySelectorAll w el (asc ''reaction-btn'')"
  let ?rt = "dataset_get w b (asc ''reaction'')"
  from assms(1) have run: "forEach (update_reaction_button h rc ur) ?btns w = (None, w')"
    by (simp add: updateReactionButtons_def)
  note shown = forEach_count_element [OF run assms(2) assms(3) assms(4)]
  have positive: "\<forall>ps n. rc = Obj ps \<and>
            map_of ps (to_string h ?rt) = Some (Num n) \<and> 0 < n \<longrightarrow>
            textContent (nodes w' ce) = to_string h (Num n) \<and>
            display (nodes w' ce) = asc ''inline'' \<and>
            (n < 9007199254740992 \<longrightarrow> textContent (nodes w' ce) = show_int n)"
  proof (intro allI impI)
    fix ps n
    assume "rc = Obj ps \<and> map_of ps (to_string h ?rt) = Some (Num n) \<and> 0 < n"
    then have "reaction_count h rc ?rt = Num n" and "0 < n"
      using reaction_count_positive [of ps h ?rt n] by simp_all
    with shown show "textContent (nodes w' ce) = to_string h (Num n) \<and>
            display (nodes w' ce) = asc ''inline'' \<and>
            (n < 9007199254740992 \<longrightarrow> textContent (nodes w' ce) = show_int n)"
      by simp
  qed
  have absent: "\<not> truthy rc \<or>
          (\<exists>ps. rc = Obj ps \<and>
             (map_of ps (to_string h ?rt) = None \<or>
              (\<exists>v. map_of ps (to_string h ?rt) = Some v \<and> \<not> truthy v))) \<longrightarrow>
            textContent (nodes w' ce) = [] \<and> display (nodes w' ce) = asc ''none''"
  proof
    assume "\<not> truthy rc \<or>
          (\<exists>ps. rc = Obj ps \<and>
             (map_of ps (to_string h ?rt) = None \<or>
              (\<exists>v. map_of ps (to_string h ?rt) = Some v \<and> \<not> truthy v)))"
    then have "reaction_count h rc ?rt = Num 0"
      by (rule reaction_count_absent)
    with shown show "textContent (nodes w' ce) = [] \<and> display (nodes w' ce) = asc ''none''"
      by simp
  qed
  have above: "above_zero h (reaction_count h rc ?rt) \<longrightarrow>
            textContent (nodes w' ce) = text_of h (reaction_count h rc ?rt) \<and>
            display (nodes w' ce) = asc ''inline''"
    using shown by simp
  have below: "\<not> above_zero h (reaction_count h rc ?rt) \<longrightarrow>
            textContent (nodes w' ce) = [] \<and> display (nodes w' ce) = asc ''none''"
    using shown by simp
  show ?thesis
    by (rule conjI [OF positive conjI [OF absent conjI [OF above below]]])
qed

theorem reaction_counts_shown_witness:
  "textContent (nodes (snd (updateReactionButtons sample_host (Some 8) sample_counts (Str (asc ''useful'')) sample_page)) 7) =
     asc ''12'' \<and>
   display (nodes (snd (updateReactionButtons sample_host (Some 8) sample_counts (Str (asc ''useful'')) sample_page)) 7) =
     asc ''inline'' \<and>
   textContent (nodes (snd (updateReactionButtons sample_host (Some 8) sample_counts (Str (asc ''useful'')) sample_page)) 5) =
     [] \<and>
   display (nodes (snd (updateReactionButtons sample_host (Some 8) sample_counts (Str (asc ''useful'')) sample_page)) 5) =
     asc ''none'' \<and>
   textContent (nodes (snd (updateReactionButtons sample_host (Some 8) sample_counts_large (Str (asc ''useful'')) sample_page)) 7) =
     asc ''1e+21''"
proof -
  let ?run = "updateReactionButtons sample_host (Some 8) sample_counts (Str (asc ''useful'')) sample_page"
  let ?large = "updateReactionButtons sample_host (Some 8) sample_counts_large (Str (asc ''useful'')) sample_page"
  have btns: "querySelectorAll sample_page 8 (asc ''reaction-btn'') = [4, 6]"
    by code_simp
  have "fst ?run = None"
    by code_simp
  then have run: "?run = (None, snd ?run)"
    by (simp add: prod_eq_iff)
  have "fst ?large = None"
    by code_simp
  then have large: "?large = (None, snd ?large)"
    by (simp add: prod_eq_iff)
  have ce: "querySelector sample_page 4 (asc ''reaction-count'') = Some 5"
    "querySelector sample_page 6 (asc ''reaction-count'') = Some 7"
    by code_simp+
  have own4: "\<forall>b' \<in> set (querySelectorAll sample_page 8 (asc ''reaction-btn'')).
           querySelector sample_page b' (asc ''reaction-count'') = Some 5 \<longrightarrow> b' = 4"
    by (simp add: btns ce)
  have own6: "\<forall>b' \<in> set (querySelectorAll sample_page 8 (asc ''reaction-btn'')).
           querySelector sample_page b' (asc ''reaction-count'') = Some 7 \<longrightarrow> b' = 6"
    by (simp add: btns ce)
  have in4: "4 \<in> set (querySelectorAll sample_page 8 (asc ''reaction-btn''))"
    and in6: "6 \<in> set (querySelectorAll sample_page 8 (asc ''reaction-btn''))"
    by (simp_all add: btns)
  let ?cs = "[(asc ''useful'', Num 12), (asc ''shocking'', Num 0)]"
  let ?ls = "[(asc ''useful'', Num 1000000000000000000000)]"
  have liked: "map_of ?cs (to_string sample_host (dataset_get sample_page 4 (asc ''reaction''))) = None"
    by code_simp
  have useful: "map_of ?cs (to_string sample_host (dataset_get sample_page 6 (asc ''reaction''))) = Some (Num 12)"
    by code_simp
  have useful_large: "map_of ?ls (to_string sample_host (dataset_get sample_page 6 (asc ''reaction''))) =
      Some (Num 1000000000000000000000)"
    by code_simp
  have twelve: "show_int 12 = asc ''12''"
    by code_simp
  have exponent: "to_string sample_host (Num 1000000000000000000000) = asc ''1e+21''"
    by (simp add: sample_host_def)
  have cs: "sample_counts = Obj ?cs"
    by (simp add: sample_counts_def)
  have ls: "sample_counts_large = Obj ?ls"
    by (simp add: sample_counts_large_def)
  have pos: "sample_counts = Obj ?cs \<and>
      map_of ?cs (to_string sample_host (dataset_get sample_page 6 (asc ''reaction''))) = Some (Num 12) \<and>
      (0::int) < 12"
    using cs useful by simp
  have pos_large: "sample_counts_large = Obj ?ls \<and>
      map_of ?ls (to_string sample_host (dataset_get sample_page 6 (asc ''reaction''))) =
        Some (Num 1000000000000000000000) \<and>
      (0::int) < 1000000000000000000000"
    using ls useful_large by simp
  have absent: "\<not> truthy sample_counts \<or>
      (\<exists>ps. sample_counts = Obj ps \<and>
         (map_of ps (to_string sample_host (dataset_get sample_page 4 (asc ''reaction''))) = None \<or>
          (\<exists>v. map_of ps (to_string sample_host (dataset_get sample_page 4 (asc ''reaction''))) = Some v \<and>
               \<not> truthy v)))"
    using cs liked by blast
  from reaction_counts_shown [OF run in6 ce(2) own6, THEN conjunct1, rule_format, OF pos]
  have shown: "textContent (nodes (snd ?run) 7) = show_int 12 \<and> display (nodes (snd ?run) 7) = asc ''inline''"
    by simp
  from reaction_counts_shown [OF large in6 ce(2) own6, THEN conjunct1, rule_format, OF pos_large]
  have shown_large: "textContent (nodes (snd ?large) 7) = to_string sample_host (Num 1000000000000000000000)"
    by blast
  from reaction_counts_shown [OF run in4 ce(1) own4, THEN conjunct2, THEN conjunct1, rule_format, OF absent]
  have hidden: "textContent (nodes (snd ?run) 5) = [] \<and> display (nodes (snd ?run) 5) = asc ''none''" .
  from shown hidden shown_large twelve exponent show ?thesis
    by simp
qed

section \<open>Deleting a comment\<close>

lemma root_prune [simp]: "root (prune c t) = root t"
  by (cases t) simp

lemma descendants_prune: "c \<notin> set (descendants (prune c t))"
  by (induction t) auto

lemma descendants_prune_subset: "set (descendants (prune c t)) \<subseteq> set (descendants t)"
  by (induction t) fastforce

lemma all_ids_without: "c \<notin> set (concat (map all_ids (without c ts)))"
  by (auto simp: without_def all_ids_def descendants_prune)

lemma all_ids_without_subset:
  "set (concat (map all_ids (without c ts))) \<subseteq> set (concat (map all_ids ts))"
  using descendants_prune_subset by (fastforce simp: without_def all_ids_def)

lemma first_some_None: "first_some xs = None \<longleftrightarrow> (\<forall>x \<in> set xs. x = None)"
  by (induction xs rule: first_some.induct) auto

lemma first_some_Some: "first_some xs = Some y \<Longrightarrow> Some y \<in> set xs"
  by (induction xs rule: first_some.induct) auto

lemma subtree_None: "subtree c t = None \<longleftrightarrow> c \<notin> set (all_ids t)"
  by (induction t) (auto simp: all_ids_def first_some_None)

lemma subtree_root: "subtree c t = Some s \<Longrightarrow> root s = c"
  by (induction t) (auto split: if_splits dest!: first_some_Some)

lemma path_to_absent: "c \<notin> set (all_ids t) \<Longrightarrow> path_to c t = None"
  by (induction t) (auto simp: all_ids_def first_some_None split: option.splits)

lemma path_to_root: "root t = c \<Longrightarrow> path_to c t = Some [c]"
  by (cases t) simp

lemma graft_absent: "p \<notin> set (all_ids t) \<Longrightarrow> graft p s t = t"
  by (induction t) (auto simp: all_ids_def map_idI)


lemma first_some_append:
  "first_some (xs @ ys) = (case first_some xs of None \<Rightarrow> first_some ys | Some x \<Rightarrow> Some x)"
  by (induction xs rule: first_some.induct) auto

lemma path_to_without: "first_some (map (path_to c) (without c ts)) = None"
proof -
  have "path_to c t = None" if "t \<in> set (without c ts)" for t
  proof -
    from that all_ids_without [of c ts] have "c \<notin> set (all_ids t)"
      by auto
    then show ?thesis
      by (rule path_to_absent)
  qed
  then show ?thesis
    by (auto simp: first_some_None)
qed

lemma remove_node_not_in_document: "\<not> in_document (remove_node c w) c"
proof (cases "first_some (map (subtree c) (forest w))")
  case None
  then have "\<forall>t \<in> set (doc w). subtree c t = None"
    by (auto simp: first_some_None forest_def)
  then have "\<forall>t \<in> set (doc w). c \<notin> set (all_ids t)"
    by (simp add: subtree_None)
  then have "c \<notin> set (concat (map all_ids (doc w)))"
    by auto
  with None show ?thesis
    by (simp add: remove_node_def in_document_def)
next
  case (Some t)
  then show ?thesis
    using all_ids_without [of c "doc w"] by (simp add: remove_node_def in_document_def)
qed

lemma closest_after_remove:
  "closest (remove_node c w) c cls = (if has_class w cls c then Some c else None)"
proof (cases "first_some (map (subtree c) (forest w))")
  case None
  then have "\<forall>t \<in> set (forest w). subtree c t = None"
    by (auto simp: first_some_None)
  then have "\<forall>t \<in> set (forest w). c \<notin> set (all_ids t)"
    by (simp add: subtree_None)
  then have "first_some (map (path_to c) (forest w)) = None"
    by (auto simp: first_some_None path_to_absent)
  with None show ?thesis
    by (simp add: closest_def remove_node_def has_class_def)
next
  case (Some t)
  then have "Some t \<in> set (map (subtree c) (forest w))"
    by (rule first_some_Some)
  then have "root t = c"
    by (auto dest: subtree_root [OF sym])
  then have "path_to c t = Some [c]"
    by (rule path_to_root)
  with Some have "first_some (map (path_to c) (forest (remove_node c w))) = Some [c]"
    by (simp add: remove_node_def forest_def first_some_append path_to_without)
  then show ?thesis
    by (simp add: closest_def has_class_def)
qed

lemma appendChild_not_in_document:
  assumes "\<not> in_document w p"
  shows "\<not> in_document (snd (appendChild p c w)) p"
proof (cases "first_some (map (subtree c) (forest w))")
  case None
  with assms show ?thesis
    by (simp add: appendChild_def)
next
  case (Some t)
  show ?thesis
  proof (cases "p \<in> set (all_ids t)")
    case True
    with Some assms show ?thesis
      by (simp add: appendChild_def)
  next
    case False
    from assms all_ids_without_subset [of c "doc w"]
    have absent: "p \<notin> set (concat (map all_ids (without c (doc w))))"
      by (auto simp: in_document_def)
    then have "map (graft p t) (without c (doc w)) = without c (doc w)"
      by (intro map_idI graft_absent) auto
    with Some False absent show ?thesis
      by (simp add: appendChild_def in_document_def)
  qed
qed

lemma delete_comment_then_removes:
  assumes "get_prop data (asc ''success'') = Inr s" and "truthy s"
  shows "\<not> in_document (snd (delete_comment_then h (Some item) data w)) item"
proof -
  let ?w1 = "remove_node item w"
  have gone: "\<not> in_document ?w1 item"
    by (rule remove_node_not_in_document)
  let ?w4 = "update_node (fst (createElement ?w1)) (\<lambda>n. n\<lparr>textContent := txt_no_comments\<rparr>)
          (update_node (fst (createElement ?w1)) (\<lambda>n. n\<lparr>classList := [asc ''no-comments'']\<rparr>)
            (snd (createElement ?w1)))"
  have "\<not> in_document ?w4 item"
    using gone by (simp add: in_document_def)
  then have "\<not> in_document (snd (appendChild item (fst (createElement ?w1)) ?w4)) item"
    by (rule appendChild_not_in_document)
  with gone assms show ?thesis
    by (auto simp: delete_comment_then_def Let_def closest_after_remove split: if_splits)
qed

lemma delete_comment_then_no_placeholder:
  assumes "get_prop data (asc ''success'') = Inr s" and "truthy s"
    and "\<not> has_class w (asc ''comments-list'') item"
  shows "delete_comment_then h (Some item) data w = (None, remove_node item w)"
  using assms by (simp add: delete_comment_then_def Let_def closest_after_remove)

lemma delete_comment_click_declined:
  "delete_comment_click h target False w = (Returned, w)"
  by (simp add: delete_comment_click_def)

lemma delete_comment_click_request:
  assumes "delete_comment_click h target confirmed w = (r, w')" and "requests w' \<noteq> requests w"
  shows "confirmed \<and> r = Pending (DeleteCommentPending (closest w target (asc ''comment-item'')))"
  using assms
  by (auto simp: delete_comment_click_def Let_def split: if_splits sum.splits)

text \<open>
  C8. Declining the confirm dialog makes the delete handler return with the world as
  it was. A request is issued only after the user has confirmed, and then the pending
  callback holds the comment item found by \<open>closest('.comment-item')\<close>. On a
  response with a truthy \<open>success\<close> that comment item is no longer in the document.
\<close>

theorem delete_comment_confirms_and_removes:
  "(\<not> confirmed \<longrightarrow> handle h (DeleteCommentClick target confirmed) w = (Returned, w)) \<and>
   (handle h (DeleteCommentClick target confirmed) w = (r, w') \<and> requests w' \<noteq> requests w \<longrightarrow>
      confirmed \<and> r = Pending (DeleteCommentPending (closest w target (asc ''comment-item'')))) \<and>
   (get_prop data (asc ''success'') = Inr s \<and> truthy s \<longrightarrow>
      \<not> in_document (settle h (DeleteCommentPending (Some item)) (Parsed data) w) item)"
proof (intro conjI impI)
  assume "\<not> confirmed"
  then show "handle h (DeleteCommentClick target confirmed) w = (Returned, w)"
    by (simp add: delete_comment_click_declined)
next
  assume a: "handle h (DeleteCommentClick target confirmed) w = (r, w') \<and> requests w' \<noteq> requests w"
  with delete_comment_click_request [of h target confirmed w r w']
  show "confirmed" and "r = Pending (DeleteCommentPending (closest w target (asc ''comment-item'')))"
    by simp_all
next
  assume "get_prop data (asc ''success'') = Inr s \<and> truthy s"
  then have gone: "\<not> in_document (snd (delete_comment_then h (Some item) data w)) item"
    using delete_comment_then_removes by blast
  obtain e w1 where res: "delete_comment_then h (Some item) data w = (e, w1)"
    by (cases "delete_comment_then h (Some item) data w")
  with gone show "\<not> in_document (settle h (DeleteCommentPending (Some item)) (Parsed data) w) item"
    by (cases e) (simp_all add: on_settled_def in_document_def)
qed

theorem delete_comment_confirms_and_removes_witness:
  "handle sample_host (DeleteCommentClick 16 False) sample_page = (Returned, sample_page) \<and>
   fst (handle sample_host (DeleteCommentClick 16 True) sample_page) = Pending (DeleteCommentPending (Some 12)) \<and>
   in_document sample_page 12 \<and>
   \<not> in_document (settle sample_host (DeleteCommentPending (Some 12)) (Parsed sample_success) sample_page) 12"
proof -
  let ?click = "handle sample_host (DeleteCommentClick 16 True) sample_page"
  have item: "closest sample_page 16 (asc ''comment-item'') = Some 12"
    by code_simp
  have len: "length (requests (snd ?click)) = 1"
    by code_simp
  have "requests sample_page = []"
    by (simp add: sample_page_def)
  with len have issued: "requests (snd ?click) \<noteq> requests sample_page"
    by auto
  have pair: "?click = (fst ?click, snd ?click)"
    by simp
  have before: "in_document sample_page 12"
    by code_simp
  have s: "get_prop sample_success (asc ''success'') = Inr (Bool True)"
    by code_simp
  have t: "truthy (Bool True)"
    by simp
  note declined = delete_comment_confirms_and_removes
      [of False sample_host 16 sample_page "fst ?click" "snd ?click" sample_success "Bool True" 12]
  note confirmed = delete_comment_confirms_and_removes
      [of True sample_host 16 sample_page "fst ?click" "snd ?click" sample_success "Bool True" 12]
  from declined have a: "handle sample_host (DeleteCommentClick 16 False) sample_page = (Returned, sample_page)"
    by blast
  from confirmed pair issued item have b: "fst ?click = Pending (DeleteCommentPending (Some 12))"
    by metis
  from confirmed s t
  have c: "\<not> in_document (settle sample_host (DeleteCommentPending (Some 12)) (Parsed sample_success) sample_page) 12"
    by blast
  from a b before c show ?thesis
    by blast
qed

text \<open>
  C10. The sample page's comments list holds one comment. After its deletion has
  succeeded the list holds no comment item, and yet no placeholder: nothing was created
  and the list has no \<open>.no-comments\<close> child. \<open>closest('.comments-list')\<close> is
  asked of the comment item after \<open>remove()\<close> has detached it, so it finds no list
  (lemma \<open>delete_comment_then_no_placeholder\<close> above shows this for every page).
\<close>

theorem delete_last_comment_leaves_list_empty:
  "querySelectorAll sample_page 11 (asc ''comment-item'') = [12] \<and>
   querySelectorAll (settle sample_host (DeleteCommentPending (Some 12)) (Parsed sample_success) sample_page)
     11 (asc ''comment-item'') = [] \<and>
   querySelectorAll (settle sample_host (DeleteCommentPending (Some 12)) (Parsed sample_success) sample_page)
     11 (asc ''no-comments'') = [] \<and>
   doc (settle sample_host (DeleteCommentPending (Some 12)) (Parsed sample_success) sample_page) =
     [T 0 [T 8 [T 2 [T 3 []], T 4 [T 5 []], T 6 [T 7 []]], T 1 [T 9 [], T 10 []], T 11 []]] \<and>
   next_id (settle sample_host (DeleteCommentPending (Some 12)) (Parsed sample_success) sample_page) =
     next_id sample_page \<and>
   alerts (settle sample_host (DeleteCommentPending (Some 12)) (Parsed sample_success) sample_page) = []"
  by code_simp

end
